theory Spec2Isabelle
  imports Main "HOL-Library.Sublist"
begin

section \<open>Python values used by \<open>connection.py\<close>\<close>

text \<open>
  The module under study is \<open>datadog_checks/sqlserver/connection.py\<close>. Its methods read
  two configuration dictionaries whose values are text; \<open>dict.get(k)\<close> answers \<open>None\<close> for
  a missing key, which is the \<open>None\<close> of \<open>string option\<close> here. Python names starting with
  an underscore lose it, since an Isabelle name starts with a letter: \<open>_conn_key\<close> is
  \<open>conn_key\<close>, and so on.
\<close>

type_synonym config = "string \<rightharpoonup> string"

text \<open>\<open>d.get(k, default)\<close>\<close>

definition get_default :: "config \<Rightarrow> string \<Rightarrow> string \<Rightarrow> string" where
  "get_default d k dflt = (case d k of None \<Rightarrow> dflt | Some v \<Rightarrow> v)"

text \<open>\<open>'{}'.format(v)\<close> and \<open>'%s' % v\<close> for a value that is a string or \<open>None\<close>\<close>

definition py_format :: "string option \<Rightarrow> string" where
  "py_format v = (case v of None \<Rightarrow> ''None'' | Some s \<Rightarrow> s)"

text \<open>Truth value of a string or \<open>None\<close>: \<open>if v:\<close>\<close>

definition truthy :: "string option \<Rightarrow> bool" where
  "truthy v = (case v of None \<Rightarrow> False | Some s \<Rightarrow> s \<noteq> [])"

text \<open>
  \<open>str.lower\<close> and \<open>str.upper\<close> are Python's own: they follow the Unicode case mappings
  (for instance \<open>upper\<close> sends the long s to \<open>S\<close>), and their tables are not part of the
  module. The methods that call them therefore take the pair of case maps as the parameter
  \<open>py\<close>, and every statement about these methods holds for every such pair.
\<close>

record python_str =
  str_lower :: "string \<Rightarrow> string"
  str_upper :: "string \<Rightarrow> string"

text \<open>
  On ASCII text Python's case maps are the ASCII ones: \<open>A\<close> to \<open>Z\<close> and \<open>a\<close> to \<open>z\<close>
  change case, every other character stays. \<open>ascii_str\<close> is that pair; the example
  configurations below, whose strings are ASCII, are evaluated with it.
\<close>

definition lower_char :: "char \<Rightarrow> char" where
  "lower_char c =
     (case map_of (zip ''ABCDEFGHIJKLMNOPQRSTUVWXYZ'' ''abcdefghijklmnopqrstuvwxyz'') c of
        None \<Rightarrow> c | Some l \<Rightarrow> l)"

definition upper_char :: "char \<Rightarrow> char" where
  "upper_char c =
     (case map_of (zip ''abcdefghijklmnopqrstuvwxyz'' ''ABCDEFGHIJKLMNOPQRSTUVWXYZ'') c of
        None \<Rightarrow> c | Some u \<Rightarrow> u)"

definition ascii_lower :: "string \<Rightarrow> string" where
  "ascii_lower s = map lower_char s"

definition ascii_upper :: "string \<Rightarrow> string" where
  "ascii_upper s = map upper_char s"

definition ascii_str :: python_str where
  "ascii_str = \<lparr>str_lower = ascii_lower, str_upper = ascii_upper\<rparr>"

text \<open>
  \<open>s.split(sep)\<close> for a one-character separator: one more part than there are
  separators, empty parts kept.
\<close>

fun py_split :: "string \<Rightarrow> char \<Rightarrow> string list" where
  "py_split [] sep = [[]]"
| "py_split (c # cs) sep =
     (if c = sep then [] # py_split cs sep
      else (case py_split cs sep of [] \<Rightarrow> [[c]] | p # ps \<Rightarrow> (c # p) # ps))"

text \<open>
  \<open>s.replace(old, new)\<close>: the occurrences of \<open>old\<close> are found from the left and do not
  overlap. \<open>replace_nonempty\<close> is the scan for a non-empty \<open>old\<close>; for the empty \<open>old\<close>
  Python puts \<open>new\<close> before every character and at the end.
\<close>

fun replace_nonempty :: "string \<Rightarrow> string \<Rightarrow> string \<Rightarrow> string" where
  "replace_nonempty old new [] = []"
| "replace_nonempty old new (c # cs) =
     (if prefix old (c # cs) then new @ replace_nonempty old new (drop (length old - 1) cs)
      else c # replace_nonempty old new cs)"

definition py_replace :: "string \<Rightarrow> string \<Rightarrow> string \<Rightarrow> string" where
  "py_replace s old new =
     (if old = [] then new @ concat (map (\<lambda>c. c # new) s) else replace_nonempty old new s)"

section \<open>Exceptions, driver handles and the connection object\<close>

text \<open>
  An exception of Python or of a driver is known to this module by two renderings only:
  \<open>repr(e)\<close>, which goes into the message of a failed open, and \<open>str(e)\<close>, which goes
  into log lines. \<open>SQLConnectionError\<close> is the module's own exception; a method of
  \<open>Connection\<close> raises either it or lets a foreign exception through.
\<close>

datatype py_exception = PyException (exc_repr: string) (exc_str: string)

datatype error = SQLConnectionError string | Raised py_exception

text \<open>\<open>self.instance['host']\<close> on a dictionary without the key\<close>

definition key_error_host :: py_exception where
  "key_error_host = PyException ''KeyError('host')'' ([CHR 0x27] @ ''host'' @ [CHR 0x27])"

text \<open>\<open>adodbapi.connect\<close> or \<open>pyodbc.connect\<close> when the import failed and the name is \<open>None\<close>\<close>

definition none_has_no_connect :: py_exception where
  "none_has_no_connect =
     (let msg = [CHR 0x27] @ ''NoneType' object has no attribute 'connect'' @ [CHR 0x27]
      in PyException (''AttributeError('' @ [CHR 0x22] @ msg @ [CHR 0x22] @ '')'') msg)"

text \<open>
  \<open>a, b, c, d, e, f = parts\<close>: unpacking a list into six names raises \<open>ValueError\<close>
  unless the list has six elements.
\<close>

definition unpack_error :: "nat \<Rightarrow> py_exception" where
  "unpack_error n =
     (let msg = (if 6 < n then ''too many values to unpack (expected 6)''
                 else ''not enough values to unpack (expected 6, got '' @ [''0123456'' ! n] @ '')'')
      in PyException (''ValueError('' @ [CHR 0x27] @ msg @ [CHR 0x27] @ '')'') msg)"

fun unpack6 :: "'a list \<Rightarrow> py_exception + ('a \<times> 'a \<times> 'a \<times> 'a \<times> 'a \<times> 'a)" where
  "unpack6 [a, b, c, d, e, f] = Inr (a, b, c, d, e, f)"
| "unpack6 xs = Inl (unpack_error (length xs))"

text \<open>
  The drivers are outside the module. A cursor is what the module can observe of it:
  whether \<open>execute\<close> raises, the \<open>row.name\<close> of the rows its iteration yields, whether the
  iteration raises after them, and whether \<open>close\<close> raises. A physical connection is its
  identity, whether \<open>close\<close> raises and what \<open>cursor()\<close> answers.
\<close>

record cursor =
  execute_raises :: "py_exception option"
  row_names :: "string list"
  iter_raises :: "py_exception option"
  cursor_close_raises :: "py_exception option"

record rawconn =
  handle_id :: nat
  close_raises :: "py_exception option"
  new_cursor :: "py_exception + cursor"

text \<open>
  The two optional modules: \<open>None\<close> when the import failed, else the module's \<open>connect\<close>,
  from the connection string and the timeout to a handle or an exception.
\<close>

record drivers =
  adodbapi :: "(string \<Rightarrow> int \<Rightarrow> py_exception + rawconn) option"
  pyodbc :: "(string \<Rightarrow> int \<Rightarrow> py_exception + rawconn) option"

definition module_connect ::
  "(string \<Rightarrow> int \<Rightarrow> py_exception + rawconn) option \<Rightarrow> string \<Rightarrow> int \<Rightarrow> py_exception + rawconn" where
  "module_connect m cs t = (case m of None \<Rightarrow> Inl none_has_no_connect | Some connect \<Rightarrow> connect cs t)"

text \<open>
  What the object does to the outside is kept as a trace, in order: log lines, calls of
  the service check handler (status, host, database, message), and the calls of
  \<open>close\<close> and \<open>execute\<close> on driver objects.
\<close>

datatype status = OK | CRITICAL

datatype level = DEBUG | INFO | WARNING | ERROR

datatype event =
    Log level string
  | ServiceCheck status "string option" "string option" "string option"
  | ConnClose rawconn
  | CursorClose cursor
  | Execute string

text \<open>
  The fields of \<open>Connection\<close>. \<open>instance_config\<close> is \<open>self.instance\<close>; \<open>events\<close> stands
  for the logger and the service check handler.
\<close>

record connection =
  instance_config :: config
  conns :: "string \<rightharpoonup> rawconn"
  timeout :: int
  existing_databases :: "(string \<rightharpoonup> bool) option"
  adoprovider :: string
  valid_connectors :: "string list"
  connector :: string
  events :: "event list"

definition DATABASE_EXISTS_QUERY :: string where
  "DATABASE_EXISTS_QUERY = ''select name from sys.databases;''"

definition DEFAULT_COMMAND_TIMEOUT :: int where
  "DEFAULT_COMMAND_TIMEOUT = 5"

definition DEFAULT_DATABASE :: string where
  "DEFAULT_DATABASE = ''master''"

definition DEFAULT_DRIVER :: string where
  "DEFAULT_DRIVER = ''SQL Server''"

definition DEFAULT_DB_KEY :: string where
  "DEFAULT_DB_KEY = ''database''"

definition valid_adoproviders :: "string list" where
  "valid_adoproviders = [''SQLOLEDB'', ''MSOLEDBSQL'', ''SQLNCLI11'']"

definition default_adoprovider :: string where
  "default_adoprovider = ''SQLOLEDB''"

definition log :: "level \<Rightarrow> string \<Rightarrow> connection \<Rightarrow> connection" where
  "log lv msg self = self\<lparr>events := events self @ [Log lv msg]\<rparr>"

definition service_check_handler ::
  "status \<Rightarrow> string option \<Rightarrow> string option \<Rightarrow> string option \<Rightarrow> connection \<Rightarrow> connection" where
  "service_check_handler st host database message self =
     self\<lparr>events := events self @ [ServiceCheck st host database message]\<rparr>"

section \<open>Initialisation and the connector selector\<close>

text \<open>
  \<open>Connection.__init__\<close>. The instance's \<open>command_timeout\<close> is the one setting that is a
  number, so it is passed beside the text-valued dictionary.
\<close>

definition Connection_init :: "python_str \<Rightarrow> drivers \<Rightarrow> config \<Rightarrow> config \<Rightarrow> int option \<Rightarrow> connection" where
  "Connection_init py drv init_config instance_cfg command_timeout =
     (let valid = (case adodbapi drv of None \<Rightarrow> [] | Some _ \<Rightarrow> [''adodbapi''])
                @ (case pyodbc drv of None \<Rightarrow> [] | Some _ \<Rightarrow> [''odbc'']);
          s0 = \<lparr>instance_config = instance_cfg, conns = Map.empty,
                timeout = (case command_timeout of None \<Rightarrow> DEFAULT_COMMAND_TIMEOUT | Some t \<Rightarrow> t),
                existing_databases = None, adoprovider = default_adoprovider,
                valid_connectors = valid,
                connector = get_default init_config ''connector'' ''adodbapi'',
                events = []\<rparr>;
          s1 = (if str_lower py (connector s0) \<notin> set (valid_connectors s0)
                then (log ERROR (''Invalid database connector '' @ connector s0 @ '', defaulting to adodbapi'') s0)
                       \<lparr>connector := ''adodbapi''\<rparr>
                else s0);
          s2 = s1\<lparr>adoprovider := get_default init_config ''adoprovider'' default_adoprovider\<rparr>;
          s3 = (if str_upper py (adoprovider s2) \<notin> set valid_adoproviders
                then (log ERROR (''Invalid ADODB provider string '' @ adoprovider s2
                                  @ '', defaulting to '' @ default_adoprovider) s2)
                       \<lparr>adoprovider := default_adoprovider\<rparr>
                else s2)
      in log DEBUG ''Connection initialized.'' s3)"

text \<open>
  \<open>get_connector\<close> and \<open>_get_adoprovider\<close>: the per-call override. The debug line of an
  accepted override reads \<open>self.instance['host']\<close>, which raises \<open>KeyError\<close> when the
  instance has no host.
\<close>

definition get_connector :: "python_str \<Rightarrow> connection \<Rightarrow> (py_exception + string) \<times> connection" where
  "get_connector py self =
     (let c = get_default (instance_config self) ''connector'' (connector self) in
      if c \<noteq> connector self then
        if str_lower py c \<notin> set (valid_connectors self) then
          (Inr (connector self),
           log WARNING (''Invalid database connector '' @ c @ '' using default '' @ connector self) self)
        else
          (case instance_config self ''host'' of
             None \<Rightarrow> (Inl key_error_host, self)
           | Some h \<Rightarrow>
               (Inr c, log DEBUG (''Overriding default connector for '' @ h @ '' with '' @ c) self))
      else (Inr c, self))"

definition get_adoprovider :: "python_str \<Rightarrow> connection \<Rightarrow> (py_exception + string) \<times> connection" where
  "get_adoprovider py self =
     (let p = get_default (instance_config self) ''adoprovider'' default_adoprovider in
      if p \<noteq> adoprovider self then
        if str_upper py p \<notin> set valid_adoproviders then
          (Inr (adoprovider self),
           log WARNING (''Invalid ADO provider '' @ p @ '' using default '' @ adoprovider self) self)
        else
          (case instance_config self ''host'' of
             None \<Rightarrow> (Inl key_error_host, self)
           | Some h \<Rightarrow>
               (Inr p, log DEBUG (''Overriding default ADO provider for '' @ h @ '' with '' @ p) self))
      else (Inr p, self))"

section \<open>Access info, the connection key and the connection strings\<close>

text \<open>
  \<open>_get_access_info\<close> returns the tuple (dsn, host, username, password, database,
  driver). \<open>db_key\<close> may be \<open>None\<close> (the default-database helpers pass it), and
  \<open>instance.get(None)\<close> is \<open>None\<close>.
\<close>

type_synonym access_info =
  "string option \<times> string option \<times> string option \<times> string option \<times> string option \<times> string option"

definition get_access_info :: "connection \<Rightarrow> string option \<Rightarrow> string option \<Rightarrow> access_info" where
  "get_access_info self db_key db_name =
     (let dsn = instance_config self ''dsn'';
          host = instance_config self ''host'';
          username = instance_config self ''username'';
          password = instance_config self ''password'';
          database = (case db_name of
                        None \<Rightarrow> (case db_key of None \<Rightarrow> None | Some k \<Rightarrow> instance_config self k)
                      | Some n \<Rightarrow> Some n);
          driver = instance_config self ''driver''
      in if \<not> truthy dsn then
           (dsn,
            (if \<not> truthy host then Some ''127.0.0.1,1433'' else host),
            username, password,
            (if \<not> truthy database then Some DEFAULT_DATABASE else database),
            (if \<not> truthy driver then Some DEFAULT_DRIVER else driver))
         else (dsn, host, username, password, database, driver))"

definition conn_key :: "connection \<Rightarrow> string option \<Rightarrow> string option \<Rightarrow> string" where
  "conn_key self db_key db_name =
     (case get_access_info self db_key db_name of
        (dsn, host, username, password, database, driver) \<Rightarrow>
          py_format dsn @ '':'' @ py_format host @ '':'' @ py_format username @ '':''
          @ py_format password @ '':'' @ py_format database @ '':'' @ py_format driver)"

text \<open>
  Both builders start alike: the six fields come from splitting \<open>conn_key\<close> on \<open>:\<close> when
  a non-empty key is passed (the parts are then strings), else from \<open>_get_access_info\<close>.
\<close>

definition fields_of :: "connection \<Rightarrow> string option \<Rightarrow> string option \<Rightarrow> string option
    \<Rightarrow> py_exception + access_info" where
  "fields_of self db_key key db_name =
     (case key of
        None \<Rightarrow> Inr (get_access_info self db_key db_name)
      | Some k \<Rightarrow>
          if k \<noteq> [] then unpack6 (map Some (py_split k (CHR '':'')))
          else Inr (get_access_info self db_key db_name))"

text \<open>\<open>if v: conn_str += 'NAME={};'.format(v)\<close>\<close>

definition segment :: "string \<Rightarrow> string option \<Rightarrow> string" where
  "segment name v = (if truthy v then name @ ''='' @ py_format v @ '';'' else [])"

definition conn_string_odbc :: "connection \<Rightarrow> string option \<Rightarrow> string option \<Rightarrow> string option
    \<Rightarrow> (py_exception + string) \<times> connection" where
  "conn_string_odbc self db_key key db_name =
     (case fields_of self db_key key db_name of
        Inl e \<Rightarrow> (Inl e, self)
      | Inr (dsn, host, username, password, database, driver) \<Rightarrow>
          (let conn_str = segment ''DSN'' dsn @ segment ''DRIVER'' driver @ segment ''Server'' host
                 @ segment ''Database'' database @ segment ''UID'' username;
               self' = log DEBUG (''Connection string (before password) '' @ conn_str) self
           in (Inr (conn_str @ segment ''PWD'' password), self')))"

definition conn_string_adodbapi :: "python_str \<Rightarrow> connection \<Rightarrow> string option \<Rightarrow> string option \<Rightarrow> string option
    \<Rightarrow> (py_exception + string) \<times> connection" where
  "conn_string_adodbapi py self db_key key db_name =
     (case fields_of self db_key key db_name of
        Inl e \<Rightarrow> (Inl e, self)
      | Inr (dsn, host, username, password, database, driver) \<Rightarrow>
          (case get_adoprovider py self of
             (Inl e, s1) \<Rightarrow> (Inl e, s1)
           | (Inr provider, s1) \<Rightarrow>
               (let conn_str = ''Provider='' @ provider @ '';Data Source='' @ py_format host
                      @ '';Initial Catalog='' @ py_format database @ '';''
                      @ segment ''User ID'' username;
                    s2 = log DEBUG (''Connection string (before password) '' @ conn_str) s1
                in (Inr (conn_str @ segment ''Password'' password
                         @ (if \<not> truthy username \<and> \<not> truthy password
                            then ''Integrated Security=SSPI;'' else [])),
                    s2))))"

section \<open>The connection pool and cursors\<close>

definition get_cursor :: "connection \<Rightarrow> string option \<Rightarrow> string option \<Rightarrow> (error + cursor) \<times> connection" where
  "get_cursor self db_key db_name =
     (case conns self (conn_key self db_key db_name) of
        None \<Rightarrow>
          (Inl (SQLConnectionError
                  (''Cannot find an opened connection for host: ''
                   @ py_format (instance_config self ''host''))),
           self)
      | Some conn \<Rightarrow>
          (case new_cursor conn of
             Inl e \<Rightarrow> (Inl (Raised e), self)
           | Inr c \<Rightarrow> (Inr c, self)))"

definition close_cursor :: "cursor \<Rightarrow> connection \<Rightarrow> connection" where
  "close_cursor c self =
     (let s1 = self\<lparr>events := events self @ [CursorClose c]\<rparr> in
      case cursor_close_raises c of
        None \<Rightarrow> s1
      | Some e \<Rightarrow> log WARNING (''Could not close adodbapi cursor'' @ [CHR 0x0A] @ exc_str e) s1)"

text \<open>
  \<open>open_db_connections\<close>, in three parts: the connect of the selected connector (the
  first half of the \<open>try\<close> block), storing the handle (its second half), and the method
  with its \<open>except\<close> handler. \<open>password_mask\<close> is \<open>"*" * 6\<close>.
\<close>

definition password_mask :: string where
  "password_mask = replicate 6 (CHR ''*'')"

definition connect_selected :: "python_str \<Rightarrow> drivers \<Rightarrow> connection \<Rightarrow> string \<Rightarrow> string option \<Rightarrow> string option
    \<Rightarrow> (py_exception + rawconn) \<times> connection" where
  "connect_selected py drv self cs db_key db_name =
     (case get_connector py self of
        (Inl e, s1) \<Rightarrow> (Inl e, s1)
      | (Inr c, s1) \<Rightarrow>
          if c = ''adodbapi'' then
            (case conn_string_adodbapi py s1 db_key None db_name of
               (Inl e, s2) \<Rightarrow> (Inl e, s2)
             | (Inr str, s2) \<Rightarrow> (module_connect (adodbapi drv) (cs @ str) (timeout s2), s2))
          else
            (case conn_string_odbc s1 db_key None db_name of
               (Inl e, s2) \<Rightarrow> (Inl e, s2)
             | (Inr str, s2) \<Rightarrow> (module_connect (pyodbc drv) (cs @ str) (timeout s2), s2)))"

definition close_stale :: "rawconn \<Rightarrow> connection \<Rightarrow> connection" where
  "close_stale old self =
     (let s1 = self\<lparr>events := events self @ [ConnClose old]\<rparr> in
      case close_raises old of
        None \<Rightarrow> s1
      | Some e \<Rightarrow> log INFO (''Could not close adodbapi db connection'' @ [CHR 0x0A] @ exc_str e) s1)"

definition store_connection :: "string \<Rightarrow> rawconn \<Rightarrow> connection \<Rightarrow> connection" where
  "store_connection key rawconn self =
     (case conns self key of
        None \<Rightarrow> self\<lparr>conns := (conns self)(key \<mapsto> rawconn)\<rparr>
      | Some old \<Rightarrow>
          (let s1 = close_stale old self in s1\<lparr>conns := (conns s1)(key \<mapsto> rawconn)\<rparr>))"

text \<open>
  \<open>cs = self.instance.get('connection_string', ''); cs += ';' if cs != '' else ''\<close>
\<close>

definition connection_string_prefix :: "connection \<Rightarrow> string" where
  "connection_string_prefix self =
     (let cs = get_default (instance_config self) ''connection_string'' []
      in cs @ (if cs \<noteq> [] then '';'' else []))"

text \<open>
  The first lines of the \<open>except\<close> handler: the message from the context and \<open>repr(e)\<close>,
  and the replacement of the configured password, when there is one, by the mask.
\<close>

definition failure_message :: "string option \<Rightarrow> string option \<Rightarrow> py_exception \<Rightarrow> string" where
  "failure_message host database e =
     (let cx = py_format host @ '' - '' @ py_format database
      in ''Unable to connect to SQL Server for instance '' @ cx @ '': '' @ exc_repr e)"

definition scrub :: "connection \<Rightarrow> string \<Rightarrow> string" where
  "scrub self message =
     (case instance_config self ''password'' of
        None \<Rightarrow> message
      | Some password \<Rightarrow> py_replace message password password_mask)"

definition open_db_connections :: "python_str \<Rightarrow> drivers \<Rightarrow> connection \<Rightarrow> string option \<Rightarrow> string option
    \<Rightarrow> (error + unit) \<times> connection" where
  "open_db_connections py drv self db_key db_name =
     (let key = conn_key self db_key db_name in
      case get_access_info self db_key db_name of
        (dsn, host, username, password, database, driver) \<Rightarrow>
          (case connect_selected py drv self (connection_string_prefix self) db_key db_name of
                (Inr rawconn, s1) \<Rightarrow>
                  (Inr (), store_connection key rawconn (service_check_handler OK host database None s1))
              | (Inl e, s1) \<Rightarrow>
                  (let message = scrub s1 (failure_message host database e)
                   in (Inl (SQLConnectionError message),
                       service_check_handler CRITICAL host database (Some message) s1))))"

definition close_db_connections :: "connection \<Rightarrow> string option \<Rightarrow> string option
    \<Rightarrow> (error + unit) \<times> connection" where
  "close_db_connections self db_key db_name =
     (let key = conn_key self db_key db_name in
      case conns self key of
        None \<Rightarrow> (Inr (), self)
      | Some conn \<Rightarrow>
          (let s1 = self\<lparr>events := events self @ [ConnClose conn]\<rparr> in
           case close_raises conn of
             None \<Rightarrow> (Inr (), s1\<lparr>conns := (conns s1)(key := None)\<rparr>)
           | Some e \<Rightarrow>
               (Inr (), log WARNING (''Could not close adodbapi db connection'' @ [CHR 0x0A] @ exc_str e) s1)))"

section \<open>The database-existence probe\<close>

text \<open>The row loop: \<open>for row in cursor: self.existing_databases[row.name] = True\<close>\<close>

primrec store_rows :: "string list \<Rightarrow> (string \<rightharpoonup> bool) \<Rightarrow> (string \<rightharpoonup> bool)" where
  "store_rows [] m = m"
| "store_rows (n # ns) m = store_rows ns (m(n \<mapsto> True))"

text \<open>\<open>database in self.existing_databases\<close>\<close>

definition database_in :: "string option \<Rightarrow> (string \<rightharpoonup> bool) \<Rightarrow> bool" where
  "database_in database m = (case database of None \<Rightarrow> False | Some d \<Rightarrow> m d \<noteq> None)"

definition check_db_exists :: "connection \<Rightarrow> (error + bool \<times> string) \<times> connection" where
  "check_db_exists self =
     (case get_access_info self (Some DEFAULT_DB_KEY) None of
        (dsn, host, username, password, database, driver) \<Rightarrow>
          (let context = py_format host @ '' - '' @ py_format database in
           case existing_databases self of
             Some m \<Rightarrow> (Inr (database_in database m, context), self)
           | None \<Rightarrow>
               (case get_cursor self None (Some DEFAULT_DATABASE) of
                  (Inl e, s1) \<Rightarrow> (Inl e, s1)
                | (Inr c, s1) \<Rightarrow>
                    (let s2 = s1\<lparr>existing_databases := Some Map.empty\<rparr>;
                         s3 = s2\<lparr>events := events s2 @ [Execute DATABASE_EXISTS_QUERY]\<rparr>;
                         failed = (\<lambda>e s. (Inr (False, context),
                                     close_cursor c
                                       (log ERROR (''Failed to check if database '' @ py_format database
                                                   @ '' exists: '' @ exc_str e) s)))
                     in case execute_raises c of
                          Some e \<Rightarrow> failed e s3
                        | None \<Rightarrow>
                            (let s4 = s3\<lparr>existing_databases := Some (store_rows (row_names c) Map.empty)\<rparr>
                             in case iter_raises c of
                                  Some e \<Rightarrow> failed e s4
                                | None \<Rightarrow>
                                    (Inr (database_in database (store_rows (row_names c) Map.empty), context),
                                     close_cursor c s4))))))"

text \<open>
  \<open>check_database\<close>: the probe inside the scoped open and close of the default database.
  The scope has no \<open>try\<close>: when the open or the probe raises, the close is skipped.
\<close>

definition check_database :: "python_str \<Rightarrow> drivers \<Rightarrow> connection \<Rightarrow> (error + bool \<times> string) \<times> connection" where
  "check_database py drv self =
     (case open_db_connections py drv self None (Some DEFAULT_DATABASE) of
        (Inl e, s1) \<Rightarrow> (Inl e, s1)
      | (Inr _, s1) \<Rightarrow>
          (case check_db_exists s1 of
             (Inl e, s2) \<Rightarrow> (Inl e, s2)
           | (Inr r, s2) \<Rightarrow> (Inr r, snd (close_db_connections s2 None (Some DEFAULT_DATABASE)))))"

section \<open>Comparing objects\<close>

text \<open>
  \<open>same_but_events s s'\<close>: the object \<open>s'\<close> has the fields of \<open>s\<close>, except possibly for the
  trace.
\<close>

definition same_but_events :: "connection \<Rightarrow> connection \<Rightarrow> bool" where
  "same_but_events s s' = (s' = s\<lparr>events := events s'\<rparr>)"


section \<open>Example configurations\<close>

text \<open>
  Concrete objects on which the theorems below are evaluated. \<open>spec_example\<close> is an instance
  with host \<open>h\<close> and database \<open>d\<close> and no credentials, with neither driver module loaded.
\<close>

definition spec_example :: connection where
  "spec_example = Connection_init ascii_str \<lparr>adodbapi = None, pyodbc = None\<rparr> Map.empty
                    [''host'' \<mapsto> ''h'', ''database'' \<mapsto> ''d''] None"

text \<open>\<open>full_example\<close> configures all six access fields.\<close>

definition full_example :: connection where
  "full_example = Connection_init ascii_str \<lparr>adodbapi = None, pyodbc = None\<rparr> Map.empty
                    [''dsn'' \<mapsto> ''prod'', ''host'' \<mapsto> ''h'', ''username'' \<mapsto> ''u'',
                     ''password'' \<mapsto> ''pw'', ''database'' \<mapsto> ''d'', ''driver'' \<mapsto> ''drv''] None"

text \<open>\<open>colon_example\<close> has a host that contains a colon.\<close>

definition colon_example :: connection where
  "colon_example = Connection_init ascii_str \<lparr>adodbapi = None, pyodbc = None\<rparr> Map.empty
                     [''host'' \<mapsto> ''tcp:h''] None"

text \<open>\<open>password_is_host\<close> is an instance whose password equals its host name.\<close>

definition password_is_host :: connection where
  "password_is_host = Connection_init ascii_str \<lparr>adodbapi = None, pyodbc = None\<rparr> Map.empty
                        [''host'' \<mapsto> ''db1'', ''password'' \<mapsto> ''db1''] None"

text \<open>
  A driver module whose \<open>connect\<close> always raises, and the pair of modules both loaded with
  it.
\<close>

definition login_failed :: py_exception where
  "login_failed = PyException ''OperationalError('Login failed for user sa')'' ''Login failed for user sa''"

definition refusing_drivers :: drivers where
  "refusing_drivers = \<lparr>adodbapi = Some (\<lambda>cs t. Inl login_failed), pyodbc = Some (\<lambda>cs t. Inl login_failed)\<rparr>"

text \<open>
  \<open>override_invalid\<close>: the init configuration selects \<open>odbc\<close> and \<open>MSOLEDBSQL\<close>, the
  instance overrides both with values that are not valid. \<open>override_valid\<close>: the init
  configuration selects nothing, the instance overrides both with valid values.
\<close>

definition override_invalid :: connection where
  "override_invalid = Connection_init ascii_str refusing_drivers
                        [''connector'' \<mapsto> ''odbc'', ''adoprovider'' \<mapsto> ''MSOLEDBSQL'']
                        [''host'' \<mapsto> ''h'', ''connector'' \<mapsto> ''bogus'', ''adoprovider'' \<mapsto> ''bogus''] None"

definition override_valid :: connection where
  "override_valid = Connection_init ascii_str refusing_drivers Map.empty
                      [''host'' \<mapsto> ''h'', ''connector'' \<mapsto> ''ODBC'', ''adoprovider'' \<mapsto> ''sqlncli11''] None"

text \<open>
  \<open>override_without_host\<close>: a DSN-style instance that names no host and overrides the
  connector with the valid value \<open>odbc\<close>.
\<close>

definition override_without_host :: connection where
  "override_without_host = Connection_init ascii_str refusing_drivers Map.empty
                             [''dsn'' \<mapsto> ''prod'', ''connector'' \<mapsto> ''odbc''] None"

text \<open>
  Handles and driver modules that connect. \<open>good_handle n\<close> closes without error and
  answers a cursor that lists \<open>master\<close> and \<open>d\<close>; \<open>stubborn_handle\<close> raises on \<open>close\<close>;
  \<open>broken_query_handle\<close> answers a cursor whose \<open>execute\<close> raises.
\<close>

definition good_cursor :: cursor where
  "good_cursor = \<lparr>execute_raises = None, row_names = [''master'', ''d''], iter_raises = None,
                   cursor_close_raises = None\<rparr>"

definition good_handle :: "nat \<Rightarrow> rawconn" where
  "good_handle n = \<lparr>handle_id = n, close_raises = None, new_cursor = Inr good_cursor\<rparr>"

definition close_failed :: py_exception where
  "close_failed = PyException ''Error('connection is busy')'' ''connection is busy''"

definition stubborn_handle :: rawconn where
  "stubborn_handle = \<lparr>handle_id = 1, close_raises = Some close_failed, new_cursor = Inr good_cursor\<rparr>"

definition query_failed :: py_exception where
  "query_failed = PyException ''ProgrammingError('permission denied')'' ''permission denied''"

definition broken_cursor :: cursor where
  "broken_cursor = \<lparr>execute_raises = Some query_failed, row_names = [], iter_raises = None,
                     cursor_close_raises = None\<rparr>"

definition broken_query_handle :: rawconn where
  "broken_query_handle = \<lparr>handle_id = 3, close_raises = None, new_cursor = Inr broken_cursor\<rparr>"

definition connecting_drivers :: "rawconn \<Rightarrow> drivers" where
  "connecting_drivers h = \<lparr>adodbapi = Some (\<lambda>cs t. Inr h), pyodbc = Some (\<lambda>cs t. Inr h)\<rparr>"

text \<open>\<open>plain_instance\<close>: host \<open>h\<close>, database \<open>d\<close>, both driver modules loaded.\<close>

definition plain_instance :: connection where
  "plain_instance = Connection_init ascii_str refusing_drivers Map.empty
                      [''host'' \<mapsto> ''h'', ''database'' \<mapsto> ''d''] None"

text \<open>
  \<open>pooled_instance\<close>: \<open>plain_instance\<close> after a successful open that stored
  \<open>stubborn_handle\<close> under the key of its default database.
\<close>

definition pooled_instance :: connection where
  "pooled_instance =
     snd (open_db_connections ascii_str (connecting_drivers stubborn_handle) plain_instance (Some ''database'') None)"

text \<open>
  \<open>probing_instance\<close>: \<open>plain_instance\<close> after the open of the default database that
  \<open>check_database\<close> performs, with a driver whose cursor fails the catalog query.
\<close>

definition probing_instance :: connection where
  "probing_instance =
     snd (open_db_connections ascii_str (connecting_drivers broken_query_handle) plain_instance
            None (Some DEFAULT_DATABASE))"

text \<open>
  A driver module whose \<open>connect\<close> raises an exception that quotes the connection string
  it was given, and two instances with a password: \<open>s3cret\<close>, and the single character
  \<open>*\<close>.
\<close>

definition echoing_drivers :: drivers where
  "echoing_drivers =
     \<lparr>adodbapi = Some (\<lambda>cs t. Inl (PyException (''Error('cannot connect with '' @ cs @ ''')'')
                                       (''cannot connect with '' @ cs))),
      pyodbc = Some (\<lambda>cs t. Inl (PyException (''Error('cannot connect with '' @ cs @ ''')'')
                                     (''cannot connect with '' @ cs)))\<rparr>"

definition secret_instance :: connection where
  "secret_instance = Connection_init ascii_str echoing_drivers Map.empty
                       [''host'' \<mapsto> ''h'', ''database'' \<mapsto> ''d'', ''password'' \<mapsto> ''s3cret''] None"

definition starred_instance :: connection where
  "starred_instance = Connection_init ascii_str echoing_drivers Map.empty
                        [''host'' \<mapsto> ''h'', ''database'' \<mapsto> ''d'', ''password'' \<mapsto> ''*''] None"

text \<open>
  \<open>provider_without_host\<close>: the init configuration selects the provider \<open>MSOLEDBSQL\<close>, the
  instance is empty, so it names no host, no credentials and no provider of its own.
\<close>

definition provider_without_host :: connection where
  "provider_without_host = Connection_init ascii_str refusing_drivers
                             [''adoprovider'' \<mapsto> ''MSOLEDBSQL''] Map.empty None"

section \<open>Facts about the string operations\<close>

lemma ascii_str_simps:
  "str_lower ascii_str = ascii_lower" "str_upper ascii_str = ascii_upper"
  by (simp_all add: ascii_str_def)

lemma prefix_replace_nonempty:
  "new \<noteq> [] \<Longrightarrow> set xs \<inter> set new = {} \<Longrightarrow> prefix xs (replace_nonempty old new s) \<Longrightarrow> prefix xs s"
proof (induction old new s arbitrary: xs rule: replace_nonempty.induct)
  case (1 old new)
  then show ?case by simp
next
  case (2 old new c cs)
  show ?case
  proof (cases "prefix old (c # cs)")
    case True
    with "2.prems" have p: "prefix xs (new @ replace_nonempty old new (drop (length old - 1) cs))"
      by simp
    have "xs = []"
    proof (cases xs)
      case Nil then show ?thesis .
    next
      case (Cons x xs')
      from "2.prems"(1) obtain n ns where new: "new = n # ns" by (cases new) auto
      from p Cons new have "x = n" by simp
      with Cons new "2.prems"(2) show ?thesis by auto
    qed
    then show ?thesis by simp
  next
    case False
    with "2.prems" have p: "prefix xs (c # replace_nonempty old new cs)" by simp
    show ?thesis
    proof (cases xs)
      case Nil then show ?thesis by simp
    next
      case (Cons x xs')
      with p have "x = c" and "prefix xs' (replace_nonempty old new cs)" by simp_all
      moreover from Cons "2.prems"(2) have "set xs' \<inter> set new = {}" by auto
      ultimately have "prefix xs' cs" using "2.IH"(2)[OF False "2.prems"(1)] by blast
      with Cons \<open>x = c\<close> show ?thesis by simp
    qed
  qed
qed

lemma replace_nonempty_removes:
  "old \<noteq> [] \<Longrightarrow> new \<noteq> [] \<Longrightarrow> set old \<inter> set new = {} \<Longrightarrow> \<not> sublist old (replace_nonempty old new s)"
proof (induction old new s rule: replace_nonempty.induct)
  case (1 old new)
  then show ?case by simp
next
  case (2 old new c cs)
  show ?case
  proof (cases "prefix old (c # cs)")
    case True
    let ?r = "replace_nonempty old new (drop (length old - 1) cs)"
    have ih: "\<not> sublist old ?r" using "2.IH"(1)[OF True "2.prems"] .
    have "\<not> sublist old (new @ ?r)"
    proof
      assume "sublist old (new @ ?r)"
      then consider "sublist old new" | "sublist old ?r"
        | xs1 xs2 where "old = xs1 @ xs2" "suffix xs1 new" "prefix xs2 ?r"
        by (auto simp: sublist_append)
      then show False
      proof cases
        case 1
        then have "set old \<subseteq> set new" by (rule set_mono_sublist)
        with "2.prems" show False by (cases old) auto
      next
        case 2 with ih show False by simp
      next
        case 3
        show False
        proof (cases xs1)
          case Nil
          with 3 have "prefix old ?r" by simp
          with ih show False by auto
        next
          case (Cons a as)
          from 3(2) have "set xs1 \<subseteq> set new" by (auto simp: suffix_def)
          with Cons 3(1) "2.prems"(3) show False by auto
        qed
      qed
    qed
    with True show ?thesis by simp
  next
    case False
    let ?r = "replace_nonempty old new cs"
    have ih: "\<not> sublist old ?r" using "2.IH"(2)[OF False "2.prems"] .
    have "\<not> prefix old (c # ?r)"
    proof
      assume "prefix old (c # ?r)"
      with False have "prefix old (replace_nonempty old new (c # cs))" by simp
      from prefix_replace_nonempty[OF "2.prems"(2) "2.prems"(3) this] False show False by simp
    qed
    with ih False show ?thesis by (simp add: sublist_Cons_right)
  qed
qed

lemma replace_nonempty_absent:
  "\<not> sublist old s \<Longrightarrow> replace_nonempty old new s = s"
proof (induction old new s rule: replace_nonempty.induct)
  case (1 old new)
  then show ?case by simp
next
  case (2 old new c cs)
  from "2.prems" have np: "\<not> prefix old (c # cs)" and ns: "\<not> sublist old cs"
    by (auto simp: sublist_Cons_right)
  with "2.IH"(2) show ?case by simp
qed

lemma py_split_no_sep: "sep \<notin> set a \<Longrightarrow> py_split a sep = [a]"
  by (induction a) auto

lemma py_split_field: "sep \<notin> set a \<Longrightarrow> py_split (a @ sep # rest) sep = a # py_split rest sep"
  by (induction a) auto

lemma sublist_count_le: "sublist xs ys \<Longrightarrow> count_list xs c \<le> count_list ys c"
  by (auto simp: sublist_def)

section \<open>The access-info resolver\<close>

lemma get_access_info_config_only:
  "instance_config other = instance_config self \<Longrightarrow>
     get_access_info other db_key db_name = get_access_info self db_key db_name"
  by (simp add: get_access_info_def cong: option.case_cong)

text \<open>
  Claim C7. When the instance supplies no DSN (the \<open>dsn\<close> setting is missing or empty),
  \<open>_get_access_info\<close> returns the host \<open>127.0.0.1,1433\<close>, the database \<open>master\<close> and the
  driver \<open>SQL Server\<close> for each of these whose configured value is missing or empty, and
  the configured value otherwise; dsn, username and password are returned as configured.
  The function is total (it returns a tuple, with no error branch) and its result depends
  on the instance configuration only.
\<close>

theorem get_access_info_defaults:
  assumes "\<not> truthy (instance_config self ''dsn'')"
  shows "get_access_info self db_key db_name =
           (instance_config self ''dsn'',
            (if truthy (instance_config self ''host'') then instance_config self ''host''
             else Some ''127.0.0.1,1433''),
            instance_config self ''username'',
            instance_config self ''password'',
            (let configured = (case db_name of
                                 None \<Rightarrow> (case db_key of None \<Rightarrow> None | Some k \<Rightarrow> instance_config self k)
                               | Some n \<Rightarrow> Some n)
             in if truthy configured then configured else Some ''master''),
            (if truthy (instance_config self ''driver'') then instance_config self ''driver''
             else Some ''SQL Server''))
       \<and> (\<forall>other. instance_config other = instance_config self \<longrightarrow>
             get_access_info other db_key db_name = get_access_info self db_key db_name)"
proof -
  have "get_access_info self db_key db_name =
           (instance_config self ''dsn'',
            (if truthy (instance_config self ''host'') then instance_config self ''host''
             else Some ''127.0.0.1,1433''),
            instance_config self ''username'',
            instance_config self ''password'',
            (let configured = (case db_name of
                                 None \<Rightarrow> (case db_key of None \<Rightarrow> None | Some k \<Rightarrow> instance_config self k)
                               | Some n \<Rightarrow> Some n)
             in if truthy configured then configured else Some ''master''),
            (if truthy (instance_config self ''driver'') then instance_config self ''driver''
             else Some ''SQL Server''))"
    using assms by (simp add: get_access_info_def Let_def DEFAULT_DATABASE_def DEFAULT_DRIVER_def)
  moreover have "\<forall>other. instance_config other = instance_config self \<longrightarrow>
             get_access_info other db_key db_name = get_access_info self db_key db_name"
    using get_access_info_config_only by blast
  ultimately show ?thesis by blast
qed

text \<open>
  The theorem at an instance with an empty host and no database, driver or DSN: all three
  defaults apply.
\<close>

theorem get_access_info_defaults_witness:
  "\<not> truthy (instance_config (Connection_init ascii_str \<lparr>adodbapi = None, pyodbc = None\<rparr> Map.empty [''host'' \<mapsto> [], ''username'' \<mapsto> ''u''] None) ''dsn'')
   \<and> get_access_info (Connection_init ascii_str \<lparr>adodbapi = None, pyodbc = None\<rparr> Map.empty [''host'' \<mapsto> [], ''username'' \<mapsto> ''u''] None)
        (Some ''database'') None
      = (None, Some ''127.0.0.1,1433'', Some ''u'', None, Some ''master'', Some ''SQL Server'')"
proof -
  let ?s = "Connection_init ascii_str \<lparr>adodbapi = None, pyodbc = None\<rparr> Map.empty [''host'' \<mapsto> [], ''username'' \<mapsto> ''u''] None"
  have i: "instance_config ?s = [''host'' \<mapsto> [], ''username'' \<mapsto> ''u'']"
    by (simp add: Connection_init_def Let_def log_def)
  have h: "\<not> truthy (instance_config ?s ''dsn'')"
    by (simp add: i truthy_def)
  from get_access_info_defaults[OF h, of "Some ''database''" None]
  have "get_access_info ?s (Some ''database'') None
      = (None, Some ''127.0.0.1,1433'', Some ''u'', None, Some ''master'', Some ''SQL Server'')"
    by (simp add: i truthy_def)
  with h show ?thesis by blast
qed

section \<open>The connection-string builders\<close>

lemma get_adoprovider_returns:
  "instance_config self ''host'' \<noteq> None \<Longrightarrow> \<exists>p. fst (get_adoprovider py self) = Inr p"
  by (auto simp: get_adoprovider_def Let_def)

text \<open>
  The builders without credentials. When the six fields the builders work from have
  neither a username nor a password (each missing or empty), the odbc builder returns
  exactly the DSN, DRIVER, Server and Database segments, so no \<open>UID\<close> and no \<open>PWD\<close>
  segment; and whenever the adodbapi builder returns a string (it does when the instance
  names a host), that string is the provider, data source and initial catalog followed by
  \<open>Integrated Security=SSPI;\<close>, with no \<open>User ID\<close> and no \<open>Password\<close>.
\<close>

theorem builders_without_credentials:
  assumes "fields_of self db_key key db_name = Inr (dsn, host, username, password, database, driver)"
      and "\<not> truthy username" and "\<not> truthy password"
  shows "fst (conn_string_odbc self db_key key db_name) =
           Inr (segment ''DSN'' dsn @ segment ''DRIVER'' driver @ segment ''Server'' host
                @ segment ''Database'' database)
       \<and> (\<forall>s. fst (conn_string_adodbapi py self db_key key db_name) = Inr s \<longrightarrow>
             (\<exists>provider. fst (get_adoprovider py self) = Inr provider
                \<and> s = ''Provider='' @ provider @ '';Data Source='' @ py_format host
                       @ '';Initial Catalog='' @ py_format database
                       @ '';Integrated Security=SSPI;''))
       \<and> (instance_config self ''host'' \<noteq> None \<longrightarrow>
             (\<exists>s. fst (conn_string_adodbapi py self db_key key db_name) = Inr s))"
proof (intro conjI allI impI)
  show "fst (conn_string_odbc self db_key key db_name) =
           Inr (segment ''DSN'' dsn @ segment ''DRIVER'' driver @ segment ''Server'' host
                @ segment ''Database'' database)"
    using assms by (simp add: conn_string_odbc_def Let_def segment_def)
next
  fix s
  assume "fst (conn_string_adodbapi py self db_key key db_name) = Inr s"
  with assms show "\<exists>provider. fst (get_adoprovider py self) = Inr provider
                \<and> s = ''Provider='' @ provider @ '';Data Source='' @ py_format host
                       @ '';Initial Catalog='' @ py_format database
                       @ '';Integrated Security=SSPI;''"
    by (auto simp: conn_string_adodbapi_def Let_def segment_def split: prod.splits sum.splits)
next
  assume "instance_config self ''host'' \<noteq> None"
  then obtain p where "fst (get_adoprovider py self) = Inr p"
    using get_adoprovider_returns by blast
  with assms show "\<exists>s. fst (conn_string_adodbapi py self db_key key db_name) = Inr s"
    by (auto simp: conn_string_adodbapi_def Let_def split: prod.splits sum.splits)
qed

lemma spec_example_fields:
  "instance_config spec_example = [''host'' \<mapsto> ''h'', ''database'' \<mapsto> ''d'']"
  "adoprovider spec_example = ''SQLOLEDB''"
  by (simp_all add: spec_example_def Connection_init_def Let_def log_def get_default_def
        default_adoprovider_def valid_adoproviders_def ascii_str_simps ascii_upper_def upper_char_def ascii_str_simps ascii_lower_def lower_char_def)

text \<open>
  The theorem at the instance with host \<open>h\<close>, database \<open>d\<close> and no credentials.
\<close>

theorem builders_without_credentials_example:
  "fields_of spec_example (Some ''database'') None None
     = Inr (None, Some ''h'', None, None, Some ''d'', Some ''SQL Server'')
   \<and> \<not> truthy None
   \<and> fst (conn_string_odbc spec_example (Some ''database'') None None)
       = Inr ''DRIVER=SQL Server;Server=h;Database=d;''
   \<and> fst (conn_string_adodbapi ascii_str spec_example (Some ''database'') None None)
       = Inr ''Provider=SQLOLEDB;Data Source=h;Initial Catalog=d;Integrated Security=SSPI;''"
proof -
  have f: "fields_of spec_example (Some ''database'') None None
     = Inr (None, Some ''h'', None, None, Some ''d'', Some ''SQL Server'')"
    by (simp add: fields_of_def get_access_info_def spec_example_fields truthy_def Let_def DEFAULT_DRIVER_def)
  have t: "\<not> truthy None" by (simp add: truthy_def)
  have p: "fst (get_adoprovider ascii_str spec_example) = Inr ''SQLOLEDB''"
    by (simp add: get_adoprovider_def spec_example_fields get_default_def default_adoprovider_def)
  have h: "instance_config spec_example ''host'' \<noteq> None" by (simp add: spec_example_fields)
  from builders_without_credentials[OF f t t, where py = ascii_str] h p
  have "fst (conn_string_odbc spec_example (Some ''database'') None None)
       = Inr ''DRIVER=SQL Server;Server=h;Database=d;''"
   and "fst (conn_string_adodbapi ascii_str spec_example (Some ''database'') None None)
       = Inr ''Provider=SQLOLEDB;Data Source=h;Initial Catalog=d;Integrated Security=SSPI;''"
    by (auto simp: segment_def truthy_def py_format_def)
  with f t show ?thesis by blast
qed

text \<open>
  Claim C8 says that for access info with a host and a database but neither username nor
  password the odbc builder emits neither \<open>UID\<close> nor \<open>PWD\<close>, and the adodbapi builder emits
  neither \<open>User ID\<close> nor \<open>Password\<close> and appends \<open>Integrated Security=SSPI;\<close>. The code
  does not do the second at \<open>provider_without_host\<close>: the access info has the default
  host, the database \<open>master\<close> and no credentials, and the odbc builder returns the string
  without \<open>UID\<close> and \<open>PWD\<close>; but the provider of the call, \<open>SQLOLEDB\<close>, differs from the
  initial selection, its debug line reads \<open>self.instance['host']\<close>, and the adodbapi
  builder raises \<open>KeyError\<close> instead of returning a string.
\<close>

theorem adodbapi_builder_raises_without_host:
  "fields_of provider_without_host (Some ''database'') None None
     = Inr (None, Some ''127.0.0.1,1433'', None, None, Some ''master'', Some ''SQL Server'')
   \<and> fst (conn_string_odbc provider_without_host (Some ''database'') None None)
       = Inr ''DRIVER=SQL Server;Server=127.0.0.1,1433;Database=master;''
   \<and> adoprovider provider_without_host = ''MSOLEDBSQL''
   \<and> fst (get_adoprovider ascii_str provider_without_host) = Inl key_error_host
   \<and> fst (conn_string_adodbapi ascii_str provider_without_host (Some ''database'') None None)
       = Inl key_error_host"
proof -
  have i: "instance_config provider_without_host = Map.empty"
    by (simp add: provider_without_host_def Connection_init_def Let_def log_def)
  have a: "adoprovider provider_without_host = ''MSOLEDBSQL''"
    by (simp add: provider_without_host_def Connection_init_def Let_def log_def get_default_def
          default_adoprovider_def valid_adoproviders_def ascii_str_simps ascii_upper_def upper_char_def
          ascii_lower_def lower_char_def refusing_drivers_def)
  have f: "fields_of provider_without_host (Some ''database'') None None
     = Inr (None, Some ''127.0.0.1,1433'', None, None, Some ''master'', Some ''SQL Server'')"
    by (simp add: fields_of_def get_access_info_def i truthy_def Let_def DEFAULT_DATABASE_def
          DEFAULT_DRIVER_def)
  have o: "fst (conn_string_odbc provider_without_host (Some ''database'') None None)
       = Inr ''DRIVER=SQL Server;Server=127.0.0.1,1433;Database=master;''"
    by (simp add: conn_string_odbc_def f Let_def segment_def truthy_def py_format_def)
  have g: "get_adoprovider ascii_str provider_without_host = (Inl key_error_host, provider_without_host)"
    by (simp add: get_adoprovider_def get_default_def i a default_adoprovider_def valid_adoproviders_def
          ascii_str_simps ascii_upper_def upper_char_def)
  have c: "fst (conn_string_adodbapi ascii_str provider_without_host (Some ''database'') None None)
       = Inl key_error_host"
    by (simp add: conn_string_adodbapi_def f g)
  from f o a g c show ?thesis by simp
qed

section \<open>The connection key\<close>

lemma conn_key_config_only:
  "instance_config other = instance_config self \<Longrightarrow>
     conn_key other db_key db_name = conn_key self db_key db_name"
  by (simp add: conn_key_def get_access_info_config_only[of other self])

lemma py_split_six:
  assumes "sep \<notin> set a" "sep \<notin> set b" "sep \<notin> set c" "sep \<notin> set d" "sep \<notin> set e" "sep \<notin> set f"
  shows "py_split (a @ sep # b @ sep # c @ sep # d @ sep # e @ sep # f) sep = [a, b, c, d, e, f]"
  using assms by (simp add: py_split_field py_split_no_sep)

text \<open>
  Claim C4, as amended. \<open>_conn_key\<close> depends on the instance configuration only (two
  objects with the same configuration give the same key). Splitting the key on \<open>:\<close>
  gives the six access-info fields as they were formatted, a \<open>None\<close> field as the text
  \<open>None\<close>, provided that no formatted field contains a colon; so the split reproduces the
  access info exactly when, in addition, no field is \<open>None\<close>.
\<close>

theorem conn_key_round_trip:
  assumes "get_access_info self db_key db_name = (dsn, host, username, password, database, driver)"
      and "\<forall>v \<in> {dsn, host, username, password, database, driver}. CHR '':'' \<notin> set (py_format v)"
  shows "py_split (conn_key self db_key db_name) (CHR '':'')
           = map py_format [dsn, host, username, password, database, driver]
       \<and> (None \<notin> {dsn, host, username, password, database, driver} \<longrightarrow>
             unpack6 (map Some (py_split (conn_key self db_key db_name) (CHR '':'')))
               = Inr (get_access_info self db_key db_name))
       \<and> (\<forall>other. instance_config other = instance_config self \<longrightarrow>
             conn_key other db_key db_name = conn_key self db_key db_name)"
proof -
  have s: "py_split (conn_key self db_key db_name) (CHR '':'')
           = map py_format [dsn, host, username, password, database, driver]"
    using assms by (simp add: conn_key_def py_split_six)
  have "None \<notin> {dsn, host, username, password, database, driver} \<longrightarrow>
             unpack6 (map Some (py_split (conn_key self db_key db_name) (CHR '':'')))
               = Inr (get_access_info self db_key db_name)"
    using assms(1) by (auto simp: s py_format_def split: option.splits)
  moreover have "\<forall>other. instance_config other = instance_config self \<longrightarrow>
             conn_key other db_key db_name = conn_key self db_key db_name"
    using conn_key_config_only by blast
  ultimately show ?thesis using s by blast
qed

lemma full_example_instance:
  "instance_config full_example = [''dsn'' \<mapsto> ''prod'', ''host'' \<mapsto> ''h'', ''username'' \<mapsto> ''u'',
                     ''password'' \<mapsto> ''pw'', ''database'' \<mapsto> ''d'', ''driver'' \<mapsto> ''drv'']"
  by (simp add: full_example_def Connection_init_def Let_def log_def)

text \<open>The theorem at an instance that configures all six fields, none with a colon.\<close>

theorem conn_key_round_trip_witness:
  "get_access_info full_example (Some ''database'') None
     = (Some ''prod'', Some ''h'', Some ''u'', Some ''pw'', Some ''d'', Some ''drv'')
   \<and> conn_key full_example (Some ''database'') None = ''prod:h:u:pw:d:drv''
   \<and> py_split (conn_key full_example (Some ''database'') None) (CHR '':'')
       = [''prod'', ''h'', ''u'', ''pw'', ''d'', ''drv'']
   \<and> unpack6 (map Some (py_split (conn_key full_example (Some ''database'') None) (CHR '':'')))
       = Inr (get_access_info full_example (Some ''database'') None)"
proof -
  have a: "get_access_info full_example (Some ''database'') None
     = (Some ''prod'', Some ''h'', Some ''u'', Some ''pw'', Some ''d'', Some ''drv'')"
    by (simp add: get_access_info_def full_example_instance truthy_def)
  have k: "conn_key full_example (Some ''database'') None = ''prod:h:u:pw:d:drv''"
    by (simp add: conn_key_def a py_format_def)
  have c: "\<forall>v \<in> {Some ''prod'', Some ''h'', Some ''u'', Some ''pw'', Some ''d'', Some ''drv''}.
             CHR '':'' \<notin> set (py_format v)"
    by (simp add: py_format_def)
  have n: "None \<notin> {Some ''prod'', Some ''h'', Some ''u'', Some ''pw'', Some ''d'', Some ''drv''}"
    by simp
  from conn_key_round_trip[OF a c, THEN conjunct1]
  have s: "py_split (conn_key full_example (Some ''database'') None) (CHR '':'')
       = [''prod'', ''h'', ''u'', ''pw'', ''d'', ''drv'']"
    by (simp add: py_format_def)
  from conn_key_round_trip[OF a c, THEN conjunct2, THEN conjunct1] n
  have u: "unpack6 (map Some (py_split (conn_key full_example (Some ''database'') None) (CHR '':'')))
       = Inr (get_access_info full_example (Some ''database'') None)"
    by blast
  from a k s u show ?thesis by blast
qed

lemma spec_example_access_info:
  "get_access_info spec_example (Some ''database'') None
     = (None, Some ''h'', None, None, Some ''d'', Some ''SQL Server'')"
  by (simp add: get_access_info_def spec_example_fields truthy_def DEFAULT_DRIVER_def)

lemma spec_example_conn_key:
  "conn_key spec_example (Some ''database'') None = ''None:h:None:None:d:SQL Server''"
  by (simp add: conn_key_def spec_example_access_info py_format_def)

lemma spec_example_key_parts:
  "unpack6 (map Some (py_split (conn_key spec_example (Some ''database'') None) (CHR '':'')))
     = Inr (Some ''None'', Some ''h'', Some ''None'', Some ''None'', Some ''d'', Some ''SQL Server'')"
  by (simp add: spec_example_conn_key)

text \<open>
  The claim as stated fails at the instance with host \<open>h\<close>, database \<open>d\<close> and no DSN or
  credentials: the key is \<open>None:h:None:None:d:SQL Server\<close>, and its parts are six strings,
  three of them the text \<open>None\<close>, where the access info has \<open>None\<close>.
\<close>

theorem conn_key_round_trip_counterexample:
  "get_access_info spec_example (Some ''database'') None
     = (None, Some ''h'', None, None, Some ''d'', Some ''SQL Server'')
   \<and> unpack6 (map Some (py_split (conn_key spec_example (Some ''database'') None) (CHR '':'')))
       = Inr (Some ''None'', Some ''h'', Some ''None'', Some ''None'', Some ''d'', Some ''SQL Server'')
   \<and> unpack6 (map Some (py_split (conn_key spec_example (Some ''database'') None) (CHR '':'')))
       \<noteq> Inr (get_access_info spec_example (Some ''database'') None)"
proof -
  have "unpack6 (map Some (py_split (conn_key spec_example (Some ''database'') None) (CHR '':'')))
       \<noteq> Inr (get_access_info spec_example (Some ''database'') None)"
    by (simp add: spec_example_key_parts spec_example_access_info)
  with spec_example_access_info spec_example_key_parts show ?thesis by blast
qed

text \<open>A host that contains a colon: the key splits into seven parts and the unpacking raises.\<close>

lemma conn_key_colon_in_host:
  "py_split (conn_key colon_example (Some ''database'') None) (CHR '':'')
     = [''None'', ''tcp'', ''h'', ''None'', ''None'', ''master'', ''SQL Server'']
   \<and> isl (unpack6 (map Some (py_split (conn_key colon_example (Some ''database'') None) (CHR '':''))))"
proof -
  have i: "instance_config colon_example = [''host'' \<mapsto> ''tcp:h'']"
    by (simp add: colon_example_def Connection_init_def Let_def log_def)
  have k: "conn_key colon_example (Some ''database'') None = ''None:tcp:h:None:None:master:SQL Server''"
    by (simp add: conn_key_def get_access_info_def i truthy_def py_format_def
          DEFAULT_DATABASE_def DEFAULT_DRIVER_def)
  show ?thesis by (simp add: k)
qed

text \<open>
  The odbc builder given the serialized key of \<open>spec_example\<close> differs from the builder
  given the live access info: the \<open>None\<close> fields come back as the text \<open>None\<close>.
\<close>

lemma conn_string_odbc_from_key:
  "fst (conn_string_odbc spec_example (Some ''database'')
          (Some (conn_key spec_example (Some ''database'') None)) None)
     = Inr ''DSN=None;DRIVER=SQL Server;Server=h;Database=d;UID=None;PWD=None;''"
  by (simp add: conn_string_odbc_def fields_of_def spec_example_conn_key truthy_def py_format_def
        segment_def Let_def)

section \<open>Cursors for a key without a connection\<close>

lemma configured_host_colons:
  assumes "get_access_info self db_key db_name = (dsn, host, username, password, database, driver)"
  shows "count_list (py_format (instance_config self ''host'')) (CHR '':'')
           \<le> count_list (py_format host) (CHR '':'')"
  using assms
  by (auto simp: get_access_info_def truthy_def py_format_def Let_def split: option.splits if_splits)

lemma conn_key_colons:
  assumes "get_access_info self db_key db_name = (dsn, host, username, password, database, driver)"
  shows "5 + count_list (py_format host) (CHR '':'') \<le> count_list (conn_key self db_key db_name) (CHR '':'')"
  using assms by (simp add: conn_key_def)

lemma conn_key_not_in_host_message:
  "\<not> sublist (conn_key self db_key db_name)
         (''Cannot find an opened connection for host: '' @ py_format (instance_config self ''host''))"
proof
  assume "sublist (conn_key self db_key db_name)
         (''Cannot find an opened connection for host: '' @ py_format (instance_config self ''host''))"
  then have "count_list (conn_key self db_key db_name) (CHR '':'')
        \<le> count_list (''Cannot find an opened connection for host: ''
                        @ py_format (instance_config self ''host'')) (CHR '':'')"
    by (rule sublist_count_le)
  then have le: "count_list (conn_key self db_key db_name) (CHR '':'')
        \<le> 1 + count_list (py_format (instance_config self ''host'')) (CHR '':'')"
    by simp
  obtain dsn host username password database driver
    where ai: "get_access_info self db_key db_name = (dsn, host, username, password, database, driver)"
    by (cases "get_access_info self db_key db_name") auto
  from conn_key_colons[OF ai] configured_host_colons[OF ai] le show False by linarith
qed

text \<open>
  Claim C2, as amended. When the pool has no entry for the key derived from \<open>db_key\<close> and
  \<open>db_name\<close>, \<open>get_cursor\<close> raises \<open>SQLConnectionError\<close> and changes nothing. The message is
  the fixed text followed by the configured host (\<open>None\<close> when there is none): it contains
  the configured host, it never contains the serialized connection key, and it is made
  from the host alone, so the password appears in it only where the password happens to
  occur in that text.
\<close>

theorem get_cursor_without_connection:
  assumes "conns self (conn_key self db_key db_name) = None"
  shows "get_cursor self db_key db_name =
           (Inl (SQLConnectionError (''Cannot find an opened connection for host: ''
                                     @ py_format (instance_config self ''host''))), self)
       \<and> sublist (py_format (instance_config self ''host''))
            (''Cannot find an opened connection for host: '' @ py_format (instance_config self ''host''))
       \<and> \<not> sublist (conn_key self db_key db_name)
            (''Cannot find an opened connection for host: '' @ py_format (instance_config self ''host''))"
proof -
  have "get_cursor self db_key db_name =
           (Inl (SQLConnectionError (''Cannot find an opened connection for host: ''
                                     @ py_format (instance_config self ''host''))), self)"
    using assms by (simp add: get_cursor_def)
  moreover have "sublist (py_format (instance_config self ''host''))
            (''Cannot find an opened connection for host: '' @ py_format (instance_config self ''host''))"
    by (rule sublist_append_leftI)
  ultimately show ?thesis
    using conn_key_not_in_host_message[of self db_key db_name] by blast
qed


lemma spec_example_pool: "conns spec_example = Map.empty"
  by (simp add: spec_example_def Connection_init_def Let_def log_def)

text \<open>The theorem at the freshly initialised instance with host \<open>h\<close>.\<close>

theorem get_cursor_without_connection_witness:
  "conns spec_example (conn_key spec_example (Some ''database'') None) = None
   \<and> fst (get_cursor spec_example (Some ''database'') None)
       = Inl (SQLConnectionError ''Cannot find an opened connection for host: h'')"
proof -
  have n: "conns spec_example (conn_key spec_example (Some ''database'') None) = None"
    by (simp add: spec_example_pool)
  from get_cursor_without_connection[OF n, THEN conjunct1]
  have "fst (get_cursor spec_example (Some ''database'') None)
       = Inl (SQLConnectionError ''Cannot find an opened connection for host: h'')"
    by (simp add: spec_example_fields py_format_def)
  with n show ?thesis by blast
qed

lemma password_is_host_fields:
  "instance_config password_is_host = [''host'' \<mapsto> ''db1'', ''password'' \<mapsto> ''db1'']"
  "conns password_is_host = Map.empty"
  by (simp_all add: password_is_host_def Connection_init_def Let_def log_def)

text \<open>
  The claim as stated fails where the password occurs in the host-only text: for an
  instance whose password equals its host name \<open>db1\<close>, the message ends with the host and
  so contains the password.
\<close>

theorem get_cursor_without_connection_counterexample:
  "instance_config password_is_host ''password'' = Some ''db1''
   \<and> conns password_is_host (conn_key password_is_host (Some ''database'') None) = None
   \<and> fst (get_cursor password_is_host (Some ''database'') None)
       = Inl (SQLConnectionError ''Cannot find an opened connection for host: db1'')
   \<and> sublist ''db1'' ''Cannot find an opened connection for host: db1''"
proof -
  have "fst (get_cursor password_is_host (Some ''database'') None)
       = Inl (SQLConnectionError ''Cannot find an opened connection for host: db1'')"
    by (simp add: get_cursor_def password_is_host_fields py_format_def)
  moreover have "sublist ''db1'' ''Cannot find an opened connection for host: db1''"
    using sublist_append_leftI[of "''db1''" "''Cannot find an opened connection for host: ''"]
    by simp
  ultimately show ?thesis by (simp add: password_is_host_fields)
qed

section \<open>The connector selector\<close>

lemma init_connector:
  "connector (Connection_init py drv init_config instance_cfg t) =
     (case init_config ''connector'' of
        None \<Rightarrow> ''adodbapi''
      | Some c \<Rightarrow> if str_lower py c \<in> set (valid_connectors (Connection_init py drv init_config instance_cfg t))
                  then c else ''adodbapi'')"
  by (auto simp: Connection_init_def Let_def log_def get_default_def split: option.splits)

lemma init_adoprovider:
  "adoprovider (Connection_init py drv init_config instance_cfg t) =
     (case init_config ''adoprovider'' of
        None \<Rightarrow> ''SQLOLEDB''
      | Some p \<Rightarrow> if str_upper py p \<in> set valid_adoproviders then p else ''SQLOLEDB'')"
  by (auto simp: Connection_init_def Let_def log_def get_default_def default_adoprovider_def
        split: option.splits)

lemma init_valid_connectors:
  "valid_connectors (Connection_init py drv init_config instance_cfg t) =
     (case adodbapi drv of None \<Rightarrow> [] | Some _ \<Rightarrow> [''adodbapi''])
     @ (case pyodbc drv of None \<Rightarrow> [] | Some _ \<Rightarrow> [''odbc''])"
  by (simp add: Connection_init_def Let_def log_def)

lemma get_connector_invalid:
  "instance_config self ''connector'' = Some c \<Longrightarrow> str_lower py c \<notin> set (valid_connectors self)
     \<Longrightarrow> fst (get_connector py self) = Inr (connector self)"
  by (simp add: get_connector_def get_default_def Let_def)

lemma get_connector_valid:
  "instance_config self ''connector'' = Some c \<Longrightarrow> str_lower py c \<in> set (valid_connectors self)
     \<Longrightarrow> instance_config self ''host'' = Some h \<Longrightarrow> fst (get_connector py self) = Inr c"
  by (simp add: get_connector_def get_default_def Let_def)

lemma get_adoprovider_invalid:
  "instance_config self ''adoprovider'' = Some p \<Longrightarrow> str_upper py p \<notin> set valid_adoproviders
     \<Longrightarrow> fst (get_adoprovider py self) = Inr (adoprovider self)"
  by (simp add: get_adoprovider_def get_default_def Let_def)

lemma get_adoprovider_valid:
  "instance_config self ''adoprovider'' = Some p \<Longrightarrow> str_upper py p \<in> set valid_adoproviders
     \<Longrightarrow> instance_config self ''host'' = Some h \<Longrightarrow> fst (get_adoprovider py self) = Inr p"
  by (simp add: get_adoprovider_def get_default_def Let_def)

text \<open>
  Claim C9, as amended. A connector is valid when its lower-case form, by Python's
  \<open>str.lower\<close>, is an available connector, and a provider when its upper-case form, by
  \<open>str.upper\<close>, is in the allowed list; the statement holds whatever these two case maps
  are. At initialisation a configured connector that is not valid is replaced by
  \<open>adodbapi\<close>, a configured ADO provider that is not valid by \<open>SQLOLEDB\<close>, and a valid
  configured value is kept. Per call, an instance value that is not valid is replaced by
  the selection made at initialisation (\<open>self.connector\<close>, \<open>self.adoprovider\<close>), which is
  the fixed default only if the init configuration selected no other valid value; this
  path returns and does not raise. A valid instance value is returned unchanged when the
  instance names a host.
\<close>

theorem selection_fallback:
  "connector (Connection_init py drv init_config instance_cfg t) =
     (case init_config ''connector'' of
        None \<Rightarrow> ''adodbapi''
      | Some c \<Rightarrow> if str_lower py c \<in> set (valid_connectors (Connection_init py drv init_config instance_cfg t))
                  then c else ''adodbapi'')
   \<and> adoprovider (Connection_init py drv init_config instance_cfg t) =
     (case init_config ''adoprovider'' of
        None \<Rightarrow> ''SQLOLEDB''
      | Some p \<Rightarrow> if str_upper py p \<in> set valid_adoproviders then p else ''SQLOLEDB'')
   \<and> (\<forall>c. instance_config self ''connector'' = Some c \<and> str_lower py c \<notin> set (valid_connectors self)
          \<longrightarrow> fst (get_connector py self) = Inr (connector self))
   \<and> (\<forall>p. instance_config self ''adoprovider'' = Some p \<and> str_upper py p \<notin> set valid_adoproviders
          \<longrightarrow> fst (get_adoprovider py self) = Inr (adoprovider self))
   \<and> (\<forall>c h. instance_config self ''connector'' = Some c \<and> str_lower py c \<in> set (valid_connectors self)
            \<and> instance_config self ''host'' = Some h
          \<longrightarrow> fst (get_connector py self) = Inr c)
   \<and> (\<forall>p h. instance_config self ''adoprovider'' = Some p \<and> str_upper py p \<in> set valid_adoproviders
            \<and> instance_config self ''host'' = Some h
          \<longrightarrow> fst (get_adoprovider py self) = Inr p)"
  using init_connector[of py drv init_config instance_cfg t] init_adoprovider[of py drv init_config instance_cfg t]
    get_connector_invalid[of self _ py] get_connector_valid[of self _ py]
    get_adoprovider_invalid[of self _ py] get_adoprovider_valid[of self _ py]
  by blast

lemma override_invalid_fields:
  "instance_config override_invalid = [''host'' \<mapsto> ''h'', ''connector'' \<mapsto> ''bogus'', ''adoprovider'' \<mapsto> ''bogus'']"
  "valid_connectors override_invalid = [''adodbapi'', ''odbc'']"
  "connector override_invalid = ''odbc''"
  "adoprovider override_invalid = ''MSOLEDBSQL''"
  by (simp_all add: override_invalid_def init_connector init_adoprovider init_valid_connectors
        refusing_drivers_def ascii_str_simps ascii_lower_def lower_char_def ascii_upper_def upper_char_def valid_adoproviders_def)
     (simp_all add: Connection_init_def Let_def log_def)

lemma override_valid_fields:
  "instance_config override_valid = [''host'' \<mapsto> ''h'', ''connector'' \<mapsto> ''ODBC'', ''adoprovider'' \<mapsto> ''sqlncli11'']"
  "valid_connectors override_valid = [''adodbapi'', ''odbc'']"
  "connector override_valid = ''adodbapi''"
  "adoprovider override_valid = ''SQLOLEDB''"
  by (simp_all add: override_valid_def init_connector init_adoprovider init_valid_connectors
        refusing_drivers_def ascii_str_simps ascii_lower_def lower_char_def ascii_upper_def upper_char_def valid_adoproviders_def)
     (simp_all add: Connection_init_def Let_def log_def)

text \<open>
  The theorem at two objects: one whose instance overrides both settings with invalid
  values, one whose instance overrides both with valid values.
\<close>

theorem selection_fallback_witness:
  "instance_config override_invalid ''connector'' = Some ''bogus''
   \<and> str_lower ascii_str ''bogus'' \<notin> set (valid_connectors override_invalid)
   \<and> fst (get_connector ascii_str override_invalid) = Inr (connector override_invalid)
   \<and> instance_config override_invalid ''adoprovider'' = Some ''bogus''
   \<and> str_upper ascii_str ''bogus'' \<notin> set valid_adoproviders
   \<and> fst (get_adoprovider ascii_str override_invalid) = Inr (adoprovider override_invalid)
   \<and> instance_config override_valid ''connector'' = Some ''ODBC''
   \<and> str_lower ascii_str ''ODBC'' \<in> set (valid_connectors override_valid)
   \<and> fst (get_connector ascii_str override_valid) = Inr ''ODBC''
   \<and> instance_config override_valid ''adoprovider'' = Some ''sqlncli11''
   \<and> str_upper ascii_str ''sqlncli11'' \<in> set valid_adoproviders
   \<and> fst (get_adoprovider ascii_str override_valid) = Inr ''sqlncli11''"
proof -
  have i1: "instance_config override_invalid ''connector'' = Some ''bogus''"
    and i2: "instance_config override_invalid ''adoprovider'' = Some ''bogus''"
    by (simp_all add: override_invalid_fields)
  have n1: "str_lower ascii_str ''bogus'' \<notin> set (valid_connectors override_invalid)"
    by (simp add: override_invalid_fields ascii_str_simps ascii_lower_def lower_char_def)
  have n2: "str_upper ascii_str ''bogus'' \<notin> set valid_adoproviders"
    by (simp add: valid_adoproviders_def ascii_str_simps ascii_upper_def upper_char_def)
  have v1: "instance_config override_valid ''connector'' = Some ''ODBC''"
    and v2: "instance_config override_valid ''adoprovider'' = Some ''sqlncli11''"
    and h: "instance_config override_valid ''host'' = Some ''h''"
    by (simp_all add: override_valid_fields)
  have y1: "str_lower ascii_str ''ODBC'' \<in> set (valid_connectors override_valid)"
    by (simp add: override_valid_fields ascii_str_simps ascii_lower_def lower_char_def)
  have y2: "str_upper ascii_str ''sqlncli11'' \<in> set valid_adoproviders"
    by (simp add: valid_adoproviders_def ascii_str_simps ascii_upper_def upper_char_def)
  note inv = selection_fallback[of ascii_str refusing_drivers Map.empty Map.empty None override_invalid]
  note val = selection_fallback[of ascii_str refusing_drivers Map.empty Map.empty None override_valid]
  from inv i1 n1 have a: "fst (get_connector ascii_str override_invalid) = Inr (connector override_invalid)"
    by blast
  from inv i2 n2 have b: "fst (get_adoprovider ascii_str override_invalid) = Inr (adoprovider override_invalid)"
    by blast
  from val v1 y1 h have c: "fst (get_connector ascii_str override_valid) = Inr ''ODBC''"
    by blast
  from val v2 y2 h have d: "fst (get_adoprovider ascii_str override_valid) = Inr ''sqlncli11''"
    by blast
  from i1 i2 n1 n2 v1 v2 y1 y2 a b c d show ?thesis by blast
qed

text \<open>
  The claim as stated fails per call: with \<open>odbc\<close> and \<open>MSOLEDBSQL\<close> selected at
  initialisation, an invalid instance value falls back to these, not to \<open>adodbapi\<close> and
  \<open>SQLOLEDB\<close>.
\<close>

theorem selection_fallback_counterexample:
  "instance_config override_invalid ''connector'' = Some ''bogus''
   \<and> str_lower ascii_str ''bogus'' \<notin> set (valid_connectors override_invalid)
   \<and> fst (get_connector ascii_str override_invalid) = Inr ''odbc''
   \<and> instance_config override_invalid ''adoprovider'' = Some ''bogus''
   \<and> str_upper ascii_str ''bogus'' \<notin> set valid_adoproviders
   \<and> fst (get_adoprovider ascii_str override_invalid) = Inr ''MSOLEDBSQL''"
proof -
  have "str_lower ascii_str ''bogus'' \<notin> set (valid_connectors override_invalid)"
    by (simp add: override_invalid_fields ascii_str_simps ascii_lower_def lower_char_def)
  moreover have "str_upper ascii_str ''bogus'' \<notin> set valid_adoproviders"
    by (simp add: valid_adoproviders_def ascii_str_simps ascii_upper_def upper_char_def)
  moreover have "fst (get_connector ascii_str override_invalid) = Inr ''odbc''"
    by (simp add: get_connector_def get_default_def override_invalid_fields ascii_str_simps ascii_lower_def lower_char_def)
  moreover have "fst (get_adoprovider ascii_str override_invalid) = Inr ''MSOLEDBSQL''"
    by (simp add: get_adoprovider_def get_default_def override_invalid_fields default_adoprovider_def
          valid_adoproviders_def ascii_str_simps ascii_upper_def upper_char_def)
  ultimately show ?thesis by (simp add: override_invalid_fields)
qed

text \<open>
  The debug line of an accepted override reads \<open>self.instance['host']\<close>: for an instance
  without a host, a valid override that differs from the initial selection raises
  \<open>KeyError\<close>.
\<close>

lemma override_without_host_raises:
  "instance_config override_without_host ''connector'' = Some ''odbc''
   \<and> str_lower ascii_str ''odbc'' \<in> set (valid_connectors override_without_host)
   \<and> fst (get_connector ascii_str override_without_host) = Inl key_error_host"
proof -
  have i: "instance_config override_without_host = [''dsn'' \<mapsto> ''prod'', ''connector'' \<mapsto> ''odbc'']"
    by (simp add: override_without_host_def Connection_init_def Let_def log_def)
  have v: "valid_connectors override_without_host = [''adodbapi'', ''odbc'']"
    by (simp add: override_without_host_def init_valid_connectors refusing_drivers_def)
  have c: "connector override_without_host = ''adodbapi''"
    by (simp add: override_without_host_def init_connector)
  show ?thesis
    by (simp add: get_connector_def get_default_def i v c ascii_str_simps ascii_lower_def lower_char_def)
qed

section \<open>What the methods leave unchanged\<close>

lemma same_but_events_refl: "same_but_events s s"
  by (simp add: same_but_events_def)

lemma same_but_events_trans:
  "same_but_events s s' \<Longrightarrow> same_but_events s' s'' \<Longrightarrow> same_but_events s s''"
  by (cases s, cases s', cases s'') (simp add: same_but_events_def)

lemma same_but_events_fields:
  assumes "same_but_events s s'"
  shows "instance_config s' = instance_config s" and "conns s' = conns s" and "timeout s' = timeout s"
    and "existing_databases s' = existing_databases s" and "adoprovider s' = adoprovider s"
    and "valid_connectors s' = valid_connectors s" and "connector s' = connector s"
  using assms by (cases s, cases s', simp add: same_but_events_def)+

lemma same_but_events_update: "same_but_events s (s\<lparr>events := es\<rparr>)"
  by (simp add: same_but_events_def)

lemma log_same: "same_but_events s (log lv msg s)"
  by (simp add: same_but_events_def log_def)

lemma service_check_same: "same_but_events s (service_check_handler st h d m s)"
  by (simp add: same_but_events_def service_check_handler_def)

lemma get_connector_same: "same_but_events s (snd (get_connector py s))"
  by (simp add: get_connector_def Let_def log_same same_but_events_refl split: option.splits)

lemma get_adoprovider_same: "same_but_events s (snd (get_adoprovider py s))"
  by (simp add: get_adoprovider_def Let_def log_same same_but_events_refl split: option.splits)

lemma conn_string_odbc_same: "same_but_events s (snd (conn_string_odbc s db_key key db_name))"
  by (simp add: conn_string_odbc_def Let_def log_same same_but_events_refl split: sum.splits prod.splits)

lemma conn_string_adodbapi_same: "same_but_events s (snd (conn_string_adodbapi py s db_key key db_name))"
proof -
  have g: "same_but_events s (snd (get_adoprovider py s))" by (rule get_adoprovider_same)
  show ?thesis
    using g same_but_events_trans[OF g log_same]
    by (auto simp: conn_string_adodbapi_def Let_def same_but_events_refl split: sum.splits prod.splits)
qed

lemma connect_selected_same: "same_but_events s (snd (connect_selected py drv s cs db_key db_name))"
proof -
  have g: "same_but_events s (snd (get_connector py s))" by (rule get_connector_same)
  have a: "same_but_events s (snd (conn_string_adodbapi py (snd (get_connector py s)) db_key None db_name))"
    by (rule same_but_events_trans[OF g conn_string_adodbapi_same])
  have b: "same_but_events s (snd (conn_string_odbc (snd (get_connector py s)) db_key None db_name))"
    by (rule same_but_events_trans[OF g conn_string_odbc_same])
  show ?thesis
    using g a b
    by (auto simp: connect_selected_def split: sum.splits prod.splits)
qed


lemma open_db_connections_failed:
  assumes "connect_selected py drv self (connection_string_prefix self) db_key db_name = (Inl e, s1)"
      and "get_access_info self db_key db_name = (dsn, host, username, password, database, driver)"
  shows "open_db_connections py drv self db_key db_name =
           (Inl (SQLConnectionError (scrub self (failure_message host database e))),
            service_check_handler CRITICAL host database
              (Some (scrub self (failure_message host database e))) s1)"
proof -
  have "same_but_events self s1"
    using connect_selected_same[of self py drv "connection_string_prefix self" db_key db_name] assms(1)
    by simp
  then have "instance_config s1 = instance_config self" by (rule same_but_events_fields)
  then have "scrub s1 = scrub self" by (simp add: scrub_def fun_eq_iff)
  with assms show ?thesis by (simp add: open_db_connections_def Let_def)
qed

lemma open_db_connections_connected:
  assumes "connect_selected py drv self (connection_string_prefix self) db_key db_name = (Inr rawconn, s1)"
      and "get_access_info self db_key db_name = (dsn, host, username, password, database, driver)"
  shows "open_db_connections py drv self db_key db_name =
           (Inr (), store_connection (conn_key self db_key db_name) rawconn
                      (service_check_handler OK host database None s1))"
  using assms by (simp add: open_db_connections_def Let_def)

lemma connect_selected_raises:
  assumes "\<And>cs t. isl (module_connect (adodbapi drv) cs t)"
      and "\<And>cs t. isl (module_connect (pyodbc drv) cs t)"
  shows "isl (fst (connect_selected py drv self cs db_key db_name))"
  using assms by (auto simp: connect_selected_def split: sum.splits prod.splits)

section \<open>A failed open\<close>

text \<open>
  Claim C10. Whenever the connect step of \<open>open_db_connections\<close> (selecting the connector,
  building the string, calling the driver's \<open>connect\<close>) ends in an exception, the call
  raises \<open>SQLConnectionError\<close>, the pool is the same mapping as before and nothing but
  the trace has changed; and a driver whose \<open>connect\<close> raises makes the connect step end
  in an exception.
\<close>

theorem open_failure_keeps_pool:
  "(\<forall>e. fst (connect_selected py drv self (connection_string_prefix self) db_key db_name) = Inl e \<longrightarrow>
      (\<exists>m s'. open_db_connections py drv self db_key db_name = (Inl (SQLConnectionError m), s')
         \<and> conns s' = conns self \<and> same_but_events self s'))
   \<and> ((\<forall>cs t. isl (module_connect (adodbapi drv) cs t)) \<and> (\<forall>cs t. isl (module_connect (pyodbc drv) cs t)) \<longrightarrow>
        (\<exists>e. fst (connect_selected py drv self (connection_string_prefix self) db_key db_name) = Inl e))"
proof (intro conjI allI impI)
  fix e
  assume f: "fst (connect_selected py drv self (connection_string_prefix self) db_key db_name) = Inl e"
  obtain s1 where c: "connect_selected py drv self (connection_string_prefix self) db_key db_name = (Inl e, s1)"
    using f by (cases "connect_selected py drv self (connection_string_prefix self) db_key db_name") auto
  obtain dsn host username password database driver
    where ai: "get_access_info self db_key db_name = (dsn, host, username, password, database, driver)"
    by (cases "get_access_info self db_key db_name") auto
  have "same_but_events self s1"
    using connect_selected_same[of self py drv "connection_string_prefix self" db_key db_name] c by simp
  then have sbe: "same_but_events self
     (service_check_handler CRITICAL host database (Some (scrub self (failure_message host database e))) s1)"
    by (rule same_but_events_trans[OF _ service_check_same])
  from sbe have "conns (service_check_handler CRITICAL host database
                         (Some (scrub self (failure_message host database e))) s1) = conns self"
    by (rule same_but_events_fields)
  with open_db_connections_failed[OF c ai] sbe
  show "\<exists>m s'. open_db_connections py drv self db_key db_name = (Inl (SQLConnectionError m), s')
         \<and> conns s' = conns self \<and> same_but_events self s'"
    by blast
next
  assume "(\<forall>cs t. isl (module_connect (adodbapi drv) cs t)) \<and> (\<forall>cs t. isl (module_connect (pyodbc drv) cs t))"
  then have "isl (fst (connect_selected py drv self (connection_string_prefix self) db_key db_name))"
    using connect_selected_raises[of drv py self "connection_string_prefix self" db_key db_name] by blast
  then show "\<exists>e. fst (connect_selected py drv self (connection_string_prefix self) db_key db_name) = Inl e"
    by (cases "fst (connect_selected py drv self (connection_string_prefix self) db_key db_name)") auto
qed

lemma plain_instance_fields:
  "instance_config plain_instance = [''host'' \<mapsto> ''h'', ''database'' \<mapsto> ''d'']"
  "conns plain_instance = Map.empty"
  "connector plain_instance = ''adodbapi''"
  "adoprovider plain_instance = ''SQLOLEDB''"
  "existing_databases plain_instance = None"
  by (simp_all add: plain_instance_def init_connector init_adoprovider)
     (simp_all add: Connection_init_def Let_def log_def)

lemma plain_instance_access_info:
  "get_access_info plain_instance (Some ''database'') None
     = (None, Some ''h'', None, None, Some ''d'', Some ''SQL Server'')"
  by (simp add: get_access_info_def plain_instance_fields truthy_def DEFAULT_DRIVER_def)

lemma plain_instance_refused:
  "fst (connect_selected ascii_str refusing_drivers plain_instance cs (Some ''database'') None) = Inl login_failed"
  by (simp add: connect_selected_def get_connector_def conn_string_adodbapi_def get_adoprovider_def
        fields_of_def truthy_def plain_instance_access_info
        get_default_def plain_instance_fields default_adoprovider_def Let_def
        module_connect_def refusing_drivers_def split: prod.splits)

text \<open>The theorem at the instance with host \<open>h\<close> and drivers that refuse the login.\<close>

theorem open_failure_keeps_pool_witness:
  "(\<forall>cs t. isl (module_connect (adodbapi refusing_drivers) cs t))
   \<and> (\<forall>cs t. isl (module_connect (pyodbc refusing_drivers) cs t))
   \<and> fst (connect_selected ascii_str refusing_drivers plain_instance (connection_string_prefix plain_instance)
          (Some ''database'') None) = Inl login_failed
   \<and> isl (fst (open_db_connections ascii_str refusing_drivers plain_instance (Some ''database'') None))
   \<and> conns (snd (open_db_connections ascii_str refusing_drivers plain_instance (Some ''database'') None))
       = Map.empty"
proof -
  have d1: "\<forall>cs t. isl (module_connect (adodbapi refusing_drivers) cs t)"
    and d2: "\<forall>cs t. isl (module_connect (pyodbc refusing_drivers) cs t)"
    by (simp_all add: module_connect_def refusing_drivers_def)
  note t = open_failure_keeps_pool[of ascii_str refusing_drivers plain_instance "Some ''database''" None]
  from t[THEN conjunct2] d1 d2
  obtain e where r: "fst (connect_selected ascii_str refusing_drivers plain_instance
                       (connection_string_prefix plain_instance) (Some ''database'') None) = Inl e"
    by blast
  from t[THEN conjunct1] r
  obtain m s' where "open_db_connections ascii_str refusing_drivers plain_instance (Some ''database'') None
                      = (Inl (SQLConnectionError m), s')" and "conns s' = conns plain_instance"
    by blast
  then have "isl (fst (open_db_connections ascii_str refusing_drivers plain_instance (Some ''database'') None))"
    and "conns (snd (open_db_connections ascii_str refusing_drivers plain_instance (Some ''database'') None))
       = Map.empty"
    by (simp_all add: plain_instance_fields)
  with d1 d2 plain_instance_refused[of "connection_string_prefix plain_instance"] show ?thesis
    by blast
qed

section \<open>Opening over an existing entry\<close>

lemma close_stale_same: "same_but_events s (close_stale old s)"
  by (simp add: close_stale_def Let_def same_but_events_def log_def split: option.splits)

lemma close_stale_events:
  "events (close_stale old s) =
     events s @ ConnClose old #
       (case close_raises old of
          None \<Rightarrow> []
        | Some e \<Rightarrow> [Log INFO (''Could not close adodbapi db connection'' @ [CHR 0x0A] @ exc_str e)])"
  by (simp add: close_stale_def Let_def log_def split: option.splits)

text \<open>
  Claim C5. The pool is a mapping, so a key has at most one handle. When
  \<open>open_db_connections\<close> returns and the derived key had the handle \<open>old\<close>, the driver has
  answered a new handle; \<open>close\<close> was called on \<open>old\<close> in an object \<open>s1\<close> whose pool still
  was the pool before the call; a failure of that \<open>close\<close> was logged at level info and
  not raised (the call returned); and the object after the call is the one after the
  close attempt with the key now mapped to the new handle, all other keys as before.
\<close>

theorem open_replaces_stale_connection:
  assumes "open_db_connections py drv self db_key db_name = (Inr u, self')"
      and "conns self (conn_key self db_key db_name) = Some old"
  shows "\<exists>rawconn s1.
           fst (connect_selected py drv self (connection_string_prefix self) db_key db_name) = Inr rawconn
         \<and> same_but_events self s1
         \<and> self' = (close_stale old s1)\<lparr>conns := (conns s1)(conn_key self db_key db_name \<mapsto> rawconn)\<rparr>
         \<and> events self' = events s1 @ ConnClose old #
              (case close_raises old of
                 None \<Rightarrow> []
               | Some e \<Rightarrow> [Log INFO (''Could not close adodbapi db connection'' @ [CHR 0x0A] @ exc_str e)])
         \<and> conns self' = (conns self)(conn_key self db_key db_name \<mapsto> rawconn)"
proof -
  obtain dsn host username password database driver
    where ai: "get_access_info self db_key db_name = (dsn, host, username, password, database, driver)"
    by (cases "get_access_info self db_key db_name") auto
  obtain r s0 where c: "connect_selected py drv self (connection_string_prefix self) db_key db_name = (r, s0)"
    by (cases "connect_selected py drv self (connection_string_prefix self) db_key db_name") auto
  have "\<exists>rawconn. r = Inr rawconn"
  proof (cases r)
    case (Inl e)
    with c open_db_connections_failed[OF _ ai] assms(1) show ?thesis by simp
  next
    case (Inr rawconn)
    then show ?thesis by blast
  qed
  then obtain rawconn where r: "r = Inr rawconn" by blast
  define s1 where "s1 = service_check_handler OK host database None s0"
  have "same_but_events self s0"
    using connect_selected_same[of self py drv "connection_string_prefix self" db_key db_name] c by simp
  then have sbe: "same_but_events self s1"
    unfolding s1_def by (rule same_but_events_trans[OF _ service_check_same])
  then have pool: "conns s1 = conns self" by (rule same_but_events_fields)
  from c r open_db_connections_connected[OF _ ai] assms(1)
  have "self' = store_connection (conn_key self db_key db_name) rawconn s1"
    by (simp add: s1_def)
  with pool assms(2)
  have eq: "self' = (close_stale old s1)\<lparr>conns := (conns (close_stale old s1))(conn_key self db_key db_name \<mapsto> rawconn)\<rparr>"
    by (simp add: store_connection_def Let_def)
  have cs: "conns (close_stale old s1) = conns s1"
    using close_stale_same[of s1 old] by (rule same_but_events_fields)
  from eq cs have eq': "self' = (close_stale old s1)\<lparr>conns := (conns s1)(conn_key self db_key db_name \<mapsto> rawconn)\<rparr>"
    by simp
  from eq' have ev: "events self' = events (close_stale old s1)" by simp
  from eq' pool have cn: "conns self' = (conns self)(conn_key self db_key db_name \<mapsto> rawconn)" by simp
  from c r have "fst (connect_selected py drv self (connection_string_prefix self) db_key db_name) = Inr rawconn"
    by simp
  with sbe eq' ev cn close_stale_events[of old s1] show ?thesis by metis
qed


lemma connect_plain:
  assumes "instance_config s = [''host'' \<mapsto> ''h'', ''database'' \<mapsto> ''d'']"
      and "connector s = ''adodbapi''" and "adoprovider s = ''SQLOLEDB''"
  shows "connect_selected ascii_str (connecting_drivers h) s cs (Some ''database'') None =
           (Inr h, log DEBUG ''Connection string (before password) Provider=SQLOLEDB;Data Source=h;Initial Catalog=d;'' s)"
proof -
  have ai: "get_access_info s (Some ''database'') None
              = (None, Some ''h'', None, None, Some ''d'', Some ''SQL Server'')"
    by (simp add: get_access_info_def assms truthy_def DEFAULT_DRIVER_def)
  have g: "get_connector ascii_str s = (Inr ''adodbapi'', s)"
    by (simp add: get_connector_def get_default_def assms)
  have p: "get_adoprovider ascii_str s = (Inr ''SQLOLEDB'', s)"
    by (simp add: get_adoprovider_def get_default_def assms default_adoprovider_def)
  have b: "conn_string_adodbapi ascii_str s (Some ''database'') None None =
             (Inr ''Provider=SQLOLEDB;Data Source=h;Initial Catalog=d;Integrated Security=SSPI;'',
              log DEBUG ''Connection string (before password) Provider=SQLOLEDB;Data Source=h;Initial Catalog=d;'' s)"
    by (simp add: conn_string_adodbapi_def fields_of_def truthy_def ai p Let_def py_format_def segment_def)
  show ?thesis
    by (simp add: connect_selected_def g b module_connect_def connecting_drivers_def)
qed

lemma plain_instance_conn_key:
  "instance_config s = [''host'' \<mapsto> ''h'', ''database'' \<mapsto> ''d'']
     \<Longrightarrow> conn_key s (Some ''database'') None = ''None:h:None:None:d:SQL Server''"
  by (simp add: conn_key_def get_access_info_def truthy_def DEFAULT_DRIVER_def py_format_def)

lemma pooled_instance_fields:
  "instance_config pooled_instance = [''host'' \<mapsto> ''h'', ''database'' \<mapsto> ''d'']"
  "connector pooled_instance = ''adodbapi''"
  "adoprovider pooled_instance = ''SQLOLEDB''"
  "existing_databases pooled_instance = None"
  "conns pooled_instance = [''None:h:None:None:d:SQL Server'' \<mapsto> stubborn_handle]"
  by (simp_all add: pooled_instance_def open_db_connections_def plain_instance_access_info
        connect_plain[OF plain_instance_fields(1,3,4)] plain_instance_conn_key[OF plain_instance_fields(1)]
        store_connection_def service_check_handler_def log_def plain_instance_fields)

text \<open>
  The theorem at \<open>pooled_instance\<close>, whose pool holds a handle that raises on \<open>close\<close>:
  a second open with a driver answering \<open>good_handle 2\<close> returns, has called \<open>close\<close> on
  the old handle and maps the key to the new one.
\<close>

theorem open_replaces_stale_connection_witness:
  "fst (open_db_connections ascii_str (connecting_drivers (good_handle 2)) pooled_instance (Some ''database'') None)
     = Inr ()
   \<and> conns pooled_instance (conn_key pooled_instance (Some ''database'') None) = Some stubborn_handle
   \<and> conns (snd (open_db_connections ascii_str (connecting_drivers (good_handle 2)) pooled_instance
                     (Some ''database'') None))
       = [conn_key pooled_instance (Some ''database'') None \<mapsto> good_handle 2]
   \<and> ConnClose stubborn_handle
       \<in> set (events (snd (open_db_connections ascii_str (connecting_drivers (good_handle 2)) pooled_instance
                               (Some ''database'') None)))"
proof -
  let ?open = "open_db_connections ascii_str (connecting_drivers (good_handle 2)) pooled_instance (Some ''database'') None"
  have k: "conn_key pooled_instance (Some ''database'') None = ''None:h:None:None:d:SQL Server''"
    by (rule plain_instance_conn_key[OF pooled_instance_fields(1)])
  have ai: "get_access_info pooled_instance (Some ''database'') None
              = (None, Some ''h'', None, None, Some ''d'', Some ''SQL Server'')"
    by (simp add: get_access_info_def pooled_instance_fields truthy_def DEFAULT_DRIVER_def)
  have f: "fst ?open = Inr ()"
    by (simp add: open_db_connections_def ai connect_plain[OF pooled_instance_fields(1,2,3)])
  then have o: "?open = (Inr (), snd ?open)" by (cases ?open) simp
  have old: "conns pooled_instance (conn_key pooled_instance (Some ''database'') None) = Some stubborn_handle"
    by (simp add: k pooled_instance_fields)
  from open_replaces_stale_connection[OF o old]
  obtain rawconn and s1 :: connection where
        r: "fst (connect_selected ascii_str (connecting_drivers (good_handle 2)) pooled_instance
                   (connection_string_prefix pooled_instance) (Some ''database'') None) = Inr rawconn"
    and ev: "events (snd ?open) = events s1 @ ConnClose stubborn_handle #
              (case close_raises stubborn_handle of
                 None \<Rightarrow> []
               | Some e \<Rightarrow> [Log INFO (''Could not close adodbapi db connection'' @ [CHR 0x0A] @ exc_str e)])"
    and cn: "conns (snd ?open) = (conns pooled_instance)(conn_key pooled_instance (Some ''database'') None \<mapsto> rawconn)"
    by blast
  from r have "rawconn = good_handle 2"
    by (simp add: connect_plain[OF pooled_instance_fields(1,2,3)])
  with cn have "conns (snd ?open) = [conn_key pooled_instance (Some ''database'') None \<mapsto> good_handle 2]"
    by (simp add: k pooled_instance_fields)
  moreover from ev have "ConnClose stubborn_handle \<in> set (events (snd ?open))"
    by simp
  ultimately show ?thesis using f old by blast
qed

section \<open>Closing a connection\<close>

lemma store_connection_fields:
  "instance_config (store_connection k r s) = instance_config s"
  "conns (store_connection k r s) = (conns s)(k \<mapsto> r)"
  using close_stale_same[of s, THEN same_but_events_fields(1)]
        close_stale_same[of s, THEN same_but_events_fields(2)]
  by (simp_all add: store_connection_def Let_def split: option.splits)

lemma open_db_connections_stores:
  assumes "open_db_connections py drv self db_key db_name = (Inr u, s1)"
  shows "instance_config s1 = instance_config self"
    and "\<exists>h. conns s1 (conn_key self db_key db_name) = Some h"
proof -
  obtain dsn host username password database driver
    where ai: "get_access_info self db_key db_name = (dsn, host, username, password, database, driver)"
    by (cases "get_access_info self db_key db_name") auto
  obtain r s0 where c: "connect_selected py drv self (connection_string_prefix self) db_key db_name = (r, s0)"
    by (cases "connect_selected py drv self (connection_string_prefix self) db_key db_name") auto
  have "\<exists>rawconn. r = Inr rawconn"
  proof (cases r)
    case (Inl e)
    with c open_db_connections_failed[OF _ ai] assms show ?thesis by simp
  next
    case (Inr rawconn)
    then show ?thesis by blast
  qed
  then obtain rawconn where r: "r = Inr rawconn" by blast
  have "same_but_events self s0"
    using connect_selected_same[of self py drv "connection_string_prefix self" db_key db_name] c by simp
  then have "same_but_events self (service_check_handler OK host database None s0)"
    by (rule same_but_events_trans[OF _ service_check_same])
  then have i: "instance_config (service_check_handler OK host database None s0) = instance_config self"
    by (rule same_but_events_fields)
  from c r open_db_connections_connected[OF _ ai] assms
  have s1: "s1 = store_connection (conn_key self db_key db_name) rawconn
                   (service_check_handler OK host database None s0)"
    by simp
  from s1 i show "instance_config s1 = instance_config self"
    by (simp add: store_connection_fields)
  from s1 show "\<exists>h. conns s1 (conn_key self db_key db_name) = Some h"
    by (simp add: store_connection_fields)
qed

lemma close_db_connections_returns: "fst (close_db_connections s db_key db_name) = Inr ()"
  by (simp add: close_db_connections_def Let_def split: option.splits)

lemma close_db_connections_config:
  "instance_config (snd (close_db_connections s db_key db_name)) = instance_config s"
  by (simp add: close_db_connections_def Let_def log_def split: option.splits)

lemma close_db_connections_absent:
  "conns s (conn_key s db_key db_name) = None \<Longrightarrow> close_db_connections s db_key db_name = (Inr (), s)"
  by (simp add: close_db_connections_def)

lemma close_db_connections_evicts:
  "conns s (conn_key s db_key db_name) = Some h \<Longrightarrow> close_raises h = None
     \<Longrightarrow> conns (snd (close_db_connections s db_key db_name)) = (conns s)(conn_key s db_key db_name := None)"
  by (simp add: close_db_connections_def)

lemma close_db_connections_keeps:
  "conns s (conn_key s db_key db_name) = Some h \<Longrightarrow> close_raises h = Some e
     \<Longrightarrow> conns (snd (close_db_connections s db_key db_name)) = conns s"
  by (simp add: close_db_connections_def log_def)

lemma close_db_connections_raising:
  "conns s (conn_key s db_key db_name) = Some h \<Longrightarrow> close_raises h = Some e
     \<Longrightarrow> close_db_connections s db_key db_name
           = (Inr (), s\<lparr>events := events s @ [ConnClose h,
                Log WARNING (''Could not close adodbapi db connection'' @ [CHR 0x0A] @ exc_str e)]\<rparr>)"
  by (simp add: close_db_connections_def log_def)

lemma close_db_connections_closing:
  "conns s (conn_key s db_key db_name) = Some h \<Longrightarrow> close_raises h = None
     \<Longrightarrow> close_db_connections s db_key db_name
           = (Inr (), s\<lparr>events := events s @ [ConnClose h],
                        conns := (conns s)(conn_key s db_key db_name := None)\<rparr>)"
  by (simp add: close_db_connections_def)

lemma close_after_open:
  "(\<forall>u s1. open_db_connections py drv self db_key db_name = (Inr u, s1) \<longrightarrow>
      (\<exists>h. conns s1 (conn_key s1 db_key db_name) = Some h
         \<and> (close_raises h = None \<longrightarrow>
              (\<exists>m. fst (get_cursor (snd (close_db_connections s1 db_key db_name)) db_key db_name)
                     = Inl (SQLConnectionError m)))))
   \<and> fst (close_db_connections s db_key db_name) = Inr ()
   \<and> fst (close_db_connections (snd (close_db_connections s db_key db_name)) db_key db_name) = Inr ()
   \<and> (conns s (conn_key s db_key db_name) = None \<longrightarrow>
        close_db_connections s db_key db_name = (Inr (), s))
   \<and> (\<forall>h. conns s (conn_key s db_key db_name) = Some h \<and> close_raises h = None \<longrightarrow>
        close_db_connections (snd (close_db_connections s db_key db_name)) db_key db_name
          = (Inr (), snd (close_db_connections s db_key db_name)))"
proof (intro conjI allI impI)
  fix u s1
  assume o: "open_db_connections py drv self db_key db_name = (Inr u, s1)"
  have k: "conn_key s1 db_key db_name = conn_key self db_key db_name"
    using open_db_connections_stores(1)[OF o] by (rule conn_key_config_only)
  from open_db_connections_stores(2)[OF o] k
  obtain h where h: "conns s1 (conn_key s1 db_key db_name) = Some h" by auto
  have imp: "close_raises h = None \<longrightarrow>
          (\<exists>m. fst (get_cursor (snd (close_db_connections s1 db_key db_name)) db_key db_name)
                 = Inl (SQLConnectionError m))"
  proof
    assume n: "close_raises h = None"
    let ?s2 = "snd (close_db_connections s1 db_key db_name)"
    have k2: "conn_key ?s2 db_key db_name = conn_key s1 db_key db_name"
      using close_db_connections_config by (rule conn_key_config_only)
    have "conns ?s2 (conn_key ?s2 db_key db_name) = None"
      using close_db_connections_evicts[OF h n] k2 by simp
    then show "\<exists>m. fst (get_cursor ?s2 db_key db_name) = Inl (SQLConnectionError m)"
      by (simp add: get_cursor_def)
  qed
  show "\<exists>h. conns s1 (conn_key s1 db_key db_name) = Some h
         \<and> (close_raises h = None \<longrightarrow>
              (\<exists>m. fst (get_cursor (snd (close_db_connections s1 db_key db_name)) db_key db_name)
                     = Inl (SQLConnectionError m)))"
  proof (intro exI conjI)
    show "conns s1 (conn_key s1 db_key db_name) = Some h" by (rule h)
    show "close_raises h = None \<longrightarrow>
              (\<exists>m. fst (get_cursor (snd (close_db_connections s1 db_key db_name)) db_key db_name)
                     = Inl (SQLConnectionError m))" by (rule imp)
  qed
next
  show "fst (close_db_connections s db_key db_name) = Inr ()"
    by (rule close_db_connections_returns)
next
  show "fst (close_db_connections (snd (close_db_connections s db_key db_name)) db_key db_name) = Inr ()"
    by (rule close_db_connections_returns)
next
  assume "conns s (conn_key s db_key db_name) = None"
  then show "close_db_connections s db_key db_name = (Inr (), s)"
    by (rule close_db_connections_absent)
next
  fix h
  assume a: "conns s (conn_key s db_key db_name) = Some h \<and> close_raises h = None"
  let ?s2 = "snd (close_db_connections s db_key db_name)"
  have k2: "conn_key ?s2 db_key db_name = conn_key s db_key db_name"
    using close_db_connections_config by (rule conn_key_config_only)
  from a have "conns ?s2 = (conns s)(conn_key s db_key db_name := None)"
    using close_db_connections_evicts by blast
  with k2 have "conns ?s2 (conn_key ?s2 db_key db_name) = None" by simp
  then show "close_db_connections ?s2 db_key db_name = (Inr (), ?s2)"
    by (rule close_db_connections_absent)
qed

text \<open>
  Claim C6, as amended. After a successful \<open>open_db_connections\<close> the derived key has a
  handle; if closing that handle does not raise, \<open>close_db_connections\<close> followed by
  \<open>get_cursor\<close> for the same key raises \<open>SQLConnectionError\<close>. \<open>close_db_connections\<close> never
  raises, nor does a second call right after it. With the key absent the call is a no-op
  that returns the object unchanged, which is the case for the second call whenever the
  first one closed the handle without error. When the handle's \<open>close\<close> raises, the call
  has called \<open>close\<close>, logged a warning with the exception's text and left the pool as it
  was, so the entry is kept and the \<open>get_cursor\<close> that follows is answered by the kept
  handle. When the handle's \<open>close\<close> does not raise, the call has called \<open>close\<close>, logged
  nothing and removed the entry of that key only.
\<close>

theorem close_then_get_cursor:
  "(\<forall>u s1. open_db_connections py drv self db_key db_name = (Inr u, s1) \<longrightarrow>
      (\<exists>h. conns s1 (conn_key s1 db_key db_name) = Some h
         \<and> (close_raises h = None \<longrightarrow>
              (\<exists>m. fst (get_cursor (snd (close_db_connections s1 db_key db_name)) db_key db_name)
                     = Inl (SQLConnectionError m)))))
   \<and> fst (close_db_connections s db_key db_name) = Inr ()
   \<and> fst (close_db_connections (snd (close_db_connections s db_key db_name)) db_key db_name) = Inr ()
   \<and> (conns s (conn_key s db_key db_name) = None \<longrightarrow>
        close_db_connections s db_key db_name = (Inr (), s))
   \<and> (\<forall>h. conns s (conn_key s db_key db_name) = Some h \<and> close_raises h = None \<longrightarrow>
        close_db_connections (snd (close_db_connections s db_key db_name)) db_key db_name
          = (Inr (), snd (close_db_connections s db_key db_name)))
   \<and> (\<forall>h e. conns s (conn_key s db_key db_name) = Some h \<and> close_raises h = Some e \<longrightarrow>
        conns (snd (close_db_connections s db_key db_name)) = conns s
        \<and> events (snd (close_db_connections s db_key db_name))
            = events s @ [ConnClose h,
                          Log WARNING (''Could not close adodbapi db connection'' @ [CHR 0x0A] @ exc_str e)]
        \<and> fst (get_cursor (snd (close_db_connections s db_key db_name)) db_key db_name)
            = (case new_cursor h of Inl x \<Rightarrow> Inl (Raised x) | Inr c \<Rightarrow> Inr c))
   \<and> (\<forall>h. conns s (conn_key s db_key db_name) = Some h \<and> close_raises h = None \<longrightarrow>
        conns (snd (close_db_connections s db_key db_name)) = (conns s)(conn_key s db_key db_name := None)
        \<and> events (snd (close_db_connections s db_key db_name)) = events s @ [ConnClose h])"
proof -
  note core = close_after_open[of py drv self db_key db_name s]
  have raising: "\<forall>h e. conns s (conn_key s db_key db_name) = Some h \<and> close_raises h = Some e \<longrightarrow>
        conns (snd (close_db_connections s db_key db_name)) = conns s
        \<and> events (snd (close_db_connections s db_key db_name))
            = events s @ [ConnClose h,
                          Log WARNING (''Could not close adodbapi db connection'' @ [CHR 0x0A] @ exc_str e)]
        \<and> fst (get_cursor (snd (close_db_connections s db_key db_name)) db_key db_name)
            = (case new_cursor h of Inl x \<Rightarrow> Inl (Raised x) | Inr c \<Rightarrow> Inr c)"
  proof (intro allI impI)
    fix h e
    assume a: "conns s (conn_key s db_key db_name) = Some h \<and> close_raises h = Some e"
    let ?s2 = "snd (close_db_connections s db_key db_name)"
    have r: "close_db_connections s db_key db_name
                  = (Inr (), s\<lparr>events := events s @ [ConnClose h,
                       Log WARNING (''Could not close adodbapi db connection'' @ [CHR 0x0A] @ exc_str e)]\<rparr>)"
      by (rule close_db_connections_raising[OF a[THEN conjunct1] a[THEN conjunct2]])
    have k2: "conn_key ?s2 db_key db_name = conn_key s db_key db_name"
      using close_db_connections_config by (rule conn_key_config_only)
    from r have c: "conns ?s2 = conns s" by simp
    from r have ev: "events ?s2 = events s @ [ConnClose h,
                       Log WARNING (''Could not close adodbapi db connection'' @ [CHR 0x0A] @ exc_str e)]"
      by simp
    from c k2 a have "conns ?s2 (conn_key ?s2 db_key db_name) = Some h" by simp
    then have g: "fst (get_cursor ?s2 db_key db_name)
                    = (case new_cursor h of Inl x \<Rightarrow> Inl (Raised x) | Inr c \<Rightarrow> Inr c)"
      by (simp add: get_cursor_def split: sum.splits)
    from c ev g show "conns ?s2 = conns s
        \<and> events ?s2 = events s @ [ConnClose h,
                          Log WARNING (''Could not close adodbapi db connection'' @ [CHR 0x0A] @ exc_str e)]
        \<and> fst (get_cursor ?s2 db_key db_name)
            = (case new_cursor h of Inl x \<Rightarrow> Inl (Raised x) | Inr c \<Rightarrow> Inr c)"
      by (intro conjI)
  qed
  have closing: "\<forall>h. conns s (conn_key s db_key db_name) = Some h \<and> close_raises h = None \<longrightarrow>
        conns (snd (close_db_connections s db_key db_name)) = (conns s)(conn_key s db_key db_name := None)
        \<and> events (snd (close_db_connections s db_key db_name)) = events s @ [ConnClose h]"
  proof (intro allI impI)
    fix h
    assume a: "conns s (conn_key s db_key db_name) = Some h \<and> close_raises h = None"
    have r: "close_db_connections s db_key db_name
                  = (Inr (), s\<lparr>events := events s @ [ConnClose h],
                               conns := (conns s)(conn_key s db_key db_name := None)\<rparr>)"
      by (rule close_db_connections_closing[OF a[THEN conjunct1] a[THEN conjunct2]])
    then show "conns (snd (close_db_connections s db_key db_name)) = (conns s)(conn_key s db_key db_name := None)
        \<and> events (snd (close_db_connections s db_key db_name)) = events s @ [ConnClose h]"
      by simp
  qed
  show ?thesis
    by (intro conjI)
       (rule core[THEN conjunct1],
        rule core[THEN conjunct2, THEN conjunct1],
        rule core[THEN conjunct2, THEN conjunct2, THEN conjunct1],
        rule core[THEN conjunct2, THEN conjunct2, THEN conjunct2, THEN conjunct1],
        rule core[THEN conjunct2, THEN conjunct2, THEN conjunct2, THEN conjunct2],
        rule raising, rule closing)
qed

lemma plain_instance_open:
  "fst (open_db_connections ascii_str (connecting_drivers h) plain_instance (Some ''database'') None) = Inr ()"
  "conns (snd (open_db_connections ascii_str (connecting_drivers h) plain_instance (Some ''database'') None))
     = [''None:h:None:None:d:SQL Server'' \<mapsto> h]"
  "instance_config (snd (open_db_connections ascii_str (connecting_drivers h) plain_instance (Some ''database'') None))
     = [''host'' \<mapsto> ''h'', ''database'' \<mapsto> ''d'']"
  by (simp_all add: open_db_connections_def plain_instance_access_info
        connect_plain[OF plain_instance_fields(1,3,4)] plain_instance_conn_key[OF plain_instance_fields(1)]
        store_connection_def service_check_handler_def log_def plain_instance_fields)

text \<open>
  The theorem at \<open>plain_instance\<close>: opened with a driver that answers a handle closing
  without error, then closed, a cursor request raises, and closing with nothing open does
  nothing; and at \<open>pooled_instance\<close>, whose handle raises on \<open>close\<close>: the pool is kept and
  the warning is logged.
\<close>

theorem close_then_get_cursor_witness:
  "fst (open_db_connections ascii_str (connecting_drivers (good_handle 7)) plain_instance (Some ''database'') None)
     = Inr ()
   \<and> (\<exists>m. fst (get_cursor
               (snd (close_db_connections
                      (snd (open_db_connections ascii_str (connecting_drivers (good_handle 7)) plain_instance
                              (Some ''database'') None))
                      (Some ''database'') None))
               (Some ''database'') None) = Inl (SQLConnectionError m))
   \<and> conns plain_instance (conn_key plain_instance (Some ''database'') None) = None
   \<and> close_db_connections plain_instance (Some ''database'') None = (Inr (), plain_instance)
   \<and> conns pooled_instance (conn_key pooled_instance (Some ''database'') None) = Some stubborn_handle
   \<and> close_raises stubborn_handle = Some close_failed
   \<and> conns (snd (close_db_connections pooled_instance (Some ''database'') None)) = conns pooled_instance
   \<and> events (snd (close_db_connections pooled_instance (Some ''database'') None))
       = events pooled_instance @ [ConnClose stubborn_handle,
           Log WARNING (''Could not close adodbapi db connection'' @ [CHR 0x0A] @ ''connection is busy'')]
   \<and> close_db_connections (snd (close_db_connections
                                   (snd (open_db_connections ascii_str (connecting_drivers (good_handle 7))
                                           plain_instance (Some ''database'') None))
                                   (Some ''database'') None))
         (Some ''database'') None
       = (Inr (), snd (close_db_connections
                        (snd (open_db_connections ascii_str (connecting_drivers (good_handle 7))
                                plain_instance (Some ''database'') None))
                        (Some ''database'') None))
   \<and> conns (snd (close_db_connections
                    (snd (open_db_connections ascii_str (connecting_drivers (good_handle 7))
                            plain_instance (Some ''database'') None))
                    (Some ''database'') None)) = Map.empty"
proof -
  let ?o = "open_db_connections ascii_str (connecting_drivers (good_handle 7)) plain_instance (Some ''database'') None"
  let ?c = "close_db_connections (snd ?o) (Some ''database'') None"
  note t = close_then_get_cursor[of ascii_str "connecting_drivers (good_handle 7)" plain_instance
             "Some ''database''" None plain_instance]
  note tp = close_then_get_cursor[of ascii_str "connecting_drivers (good_handle 7)" plain_instance
             "Some ''database''" None pooled_instance]
  note to = close_then_get_cursor[of ascii_str "connecting_drivers (good_handle 7)" plain_instance
             "Some ''database''" None "snd ?o"]
  have f: "fst ?o = Inr ()" by (rule plain_instance_open)
  then have o: "?o = (Inr (), snd ?o)" by (cases ?o) simp
  have k: "conn_key (snd ?o) (Some ''database'') None = ''None:h:None:None:d:SQL Server''"
    by (rule plain_instance_conn_key[OF plain_instance_open(3)])
  from t[THEN conjunct1, rule_format, OF o]
  obtain h where h: "conns (snd ?o) (conn_key (snd ?o) (Some ''database'') None) = Some h"
    and g: "close_raises h = None \<longrightarrow>
              (\<exists>m. fst (get_cursor (snd ?c) (Some ''database'') None) = Inl (SQLConnectionError m))"
    by (elim exE conjE)
  from h have hg: "h = good_handle 7" by (simp add: k plain_instance_open)
  then have hn: "close_raises h = None" by (simp add: good_handle_def)
  with g have c: "\<exists>m. fst (get_cursor (snd ?c) (Some ''database'') None) = Inl (SQLConnectionError m)"
    by blast
  have n: "conns plain_instance (conn_key plain_instance (Some ''database'') None) = None"
    by (simp add: plain_instance_fields)
  from t[THEN conjunct2, THEN conjunct2, THEN conjunct2, THEN conjunct1] n
  have a: "close_db_connections plain_instance (Some ''database'') None = (Inr (), plain_instance)"
    by blast
  have kp: "conn_key pooled_instance (Some ''database'') None = ''None:h:None:None:d:SQL Server''"
    by (rule plain_instance_conn_key[OF pooled_instance_fields(1)])
  have p: "conns pooled_instance (conn_key pooled_instance (Some ''database'') None) = Some stubborn_handle"
    by (simp add: kp pooled_instance_fields)
  have r: "close_raises stubborn_handle = Some close_failed"
    by (simp add: stubborn_handle_def)
  from tp[THEN conjunct2, THEN conjunct2, THEN conjunct2, THEN conjunct2, THEN conjunct2, THEN conjunct1,
          rule_format, OF conjI[OF p r]]
  have kept: "conns (snd (close_db_connections pooled_instance (Some ''database'') None)) = conns pooled_instance"
    and warned: "events (snd (close_db_connections pooled_instance (Some ''database'') None))
       = events pooled_instance @ [ConnClose stubborn_handle,
           Log WARNING (''Could not close adodbapi db connection'' @ [CHR 0x0A] @ ''connection is busy'')]"
    by (simp_all add: close_failed_def)
  from to[THEN conjunct2, THEN conjunct2, THEN conjunct2, THEN conjunct2, THEN conjunct1,
          rule_format, OF conjI[OF h hn]]
  have twice: "close_db_connections (snd ?c) (Some ''database'') None = (Inr (), snd ?c)" .
  from to[THEN conjunct2, THEN conjunct2, THEN conjunct2, THEN conjunct2, THEN conjunct2, THEN conjunct2,
          rule_format, OF conjI[OF h hn]]
  have gone: "conns (snd ?c) = Map.empty"
    by (simp add: k plain_instance_open)
  from f c n a p r kept warned twice gone show ?thesis by (intro conjI)
qed

text \<open>
  The claim as stated fails for a handle whose \<open>close\<close> raises: \<open>close_db_connections\<close>
  logs the failure and keeps the entry, and the cursor request that follows is answered
  from it.
\<close>

theorem close_then_get_cursor_counterexample:
  "pooled_instance
     = snd (open_db_connections ascii_str (connecting_drivers stubborn_handle) plain_instance (Some ''database'') None)
   \<and> fst (open_db_connections ascii_str (connecting_drivers stubborn_handle) plain_instance (Some ''database'') None)
       = Inr ()
   \<and> fst (get_cursor (snd (close_db_connections pooled_instance (Some ''database'') None))
            (Some ''database'') None) = Inr good_cursor"
proof -
  have k: "conn_key pooled_instance (Some ''database'') None = ''None:h:None:None:d:SQL Server''"
    by (rule plain_instance_conn_key[OF pooled_instance_fields(1)])
  have c: "conns pooled_instance (conn_key pooled_instance (Some ''database'') None) = Some stubborn_handle"
    by (simp add: k pooled_instance_fields)
  have r: "close_raises stubborn_handle = Some close_failed"
    by (simp add: stubborn_handle_def)
  let ?s2 = "snd (close_db_connections pooled_instance (Some ''database'') None)"
  have k2: "conn_key ?s2 (Some ''database'') None = conn_key pooled_instance (Some ''database'') None"
    using close_db_connections_config by (rule conn_key_config_only)
  have "conns ?s2 = conns pooled_instance"
    by (rule close_db_connections_keeps[OF c r])
  with c k2 have "conns ?s2 (conn_key ?s2 (Some ''database'') None) = Some stubborn_handle"
    by simp
  then have "fst (get_cursor ?s2 (Some ''database'') None) = Inr good_cursor"
    by (simp add: get_cursor_def stubborn_handle_def)
  with plain_instance_open(1)[of stubborn_handle] show ?thesis
    by (simp add: pooled_instance_def)
qed

section \<open>The existence probe after a failed query\<close>

lemma get_cursor_state: "snd (get_cursor s db_key db_name) = s"
  by (simp add: get_cursor_def split: option.splits sum.splits)

lemma close_cursor_same: "same_but_events s (close_cursor c s)"
  by (simp add: close_cursor_def Let_def same_but_events_def log_def split: option.splits)

lemma check_db_exists_cached:
  assumes "existing_databases s = Some m"
      and "get_access_info s (Some DEFAULT_DB_KEY) None = (dsn, host, username, password, database, driver)"
  shows "check_db_exists s = (Inr (database_in database m, py_format host @ '' - '' @ py_format database), s)"
  using assms by (simp add: check_db_exists_def Let_def)

text \<open>
  Claim C3, as amended. When the cache is unset, a cursor is obtained, and the catalog
  query or the iteration over its rows raises, \<open>_check_db_exists\<close> returns
  \<open>(False, "{host} - {database}")\<close> and does not raise. The cache is then set: the method
  assigns the empty dictionary before the query and nothing resets it, so it holds the
  names fetched before the failure (none when the query itself failed). The next
  invocation answers from that cache, changes nothing and issues no query.
\<close>

theorem probe_failure_is_cached:
  assumes "existing_databases self = None"
      and "fst (get_cursor self None (Some DEFAULT_DATABASE)) = Inr c"
      and "execute_raises c \<noteq> None \<or> iter_raises c \<noteq> None"
      and "get_access_info self (Some DEFAULT_DB_KEY) None = (dsn, host, username, password, database, driver)"
  shows "\<exists>s'. check_db_exists self = (Inr (False, py_format host @ '' - '' @ py_format database), s')
           \<and> existing_databases s'
               = Some (if execute_raises c = None then store_rows (row_names c) Map.empty else Map.empty)
           \<and> check_db_exists s'
               = (Inr (database_in database
                         (if execute_raises c = None then store_rows (row_names c) Map.empty else Map.empty),
                       py_format host @ '' - '' @ py_format database), s')"
proof -
  let ?cache = "if execute_raises c = None then store_rows (row_names c) Map.empty else Map.empty"
  let ?ctx = "py_format host @ '' - '' @ py_format database"
  have g: "get_cursor self None (Some DEFAULT_DATABASE) = (Inr c, self)"
    using assms(2) get_cursor_state[of self None "Some DEFAULT_DATABASE"]
    by (cases "get_cursor self None (Some DEFAULT_DATABASE)") simp
  define s' where "s' = snd (check_db_exists self)"
  have r: "check_db_exists self = (Inr (False, ?ctx), s')"
    unfolding s'_def using assms(1,3,4) g
    by (auto simp: check_db_exists_def Let_def split: option.splits)
  have e: "existing_databases s' = Some ?cache"
    unfolding s'_def using assms(1,3,4) g
    by (auto simp: check_db_exists_def Let_def close_cursor_def log_def split: option.splits)
  have i: "instance_config s' = instance_config self"
    unfolding s'_def using assms(1,3,4) g
    by (auto simp: check_db_exists_def Let_def close_cursor_def log_def split: option.splits)
  have "get_access_info s' (Some DEFAULT_DB_KEY) None = (dsn, host, username, password, database, driver)"
    using get_access_info_config_only[OF i] assms(4) by simp
  from check_db_exists_cached[OF e this] r e show ?thesis by blast
qed


lemma connect_plain_master:
  assumes "instance_config s = [''host'' \<mapsto> ''h'', ''database'' \<mapsto> ''d'']"
      and "connector s = ''adodbapi''" and "adoprovider s = ''SQLOLEDB''"
  shows "connect_selected ascii_str (connecting_drivers h) s cs None (Some ''master'') =
           (Inr h, log DEBUG ''Connection string (before password) Provider=SQLOLEDB;Data Source=h;Initial Catalog=master;'' s)"
proof -
  have ai: "get_access_info s None (Some ''master'')
              = (None, Some ''h'', None, None, Some ''master'', Some ''SQL Server'')"
    by (simp add: get_access_info_def assms truthy_def DEFAULT_DRIVER_def)
  have g: "get_connector ascii_str s = (Inr ''adodbapi'', s)"
    by (simp add: get_connector_def get_default_def assms)
  have p: "get_adoprovider ascii_str s = (Inr ''SQLOLEDB'', s)"
    by (simp add: get_adoprovider_def get_default_def assms default_adoprovider_def)
  have b: "conn_string_adodbapi ascii_str s None None (Some ''master'') =
             (Inr ''Provider=SQLOLEDB;Data Source=h;Initial Catalog=master;Integrated Security=SSPI;'',
              log DEBUG ''Connection string (before password) Provider=SQLOLEDB;Data Source=h;Initial Catalog=master;'' s)"
    by (simp add: conn_string_adodbapi_def fields_of_def truthy_def ai p Let_def py_format_def segment_def)
  show ?thesis
    by (simp add: connect_selected_def g b module_connect_def connecting_drivers_def)
qed

lemma plain_instance_master_key:
  "instance_config s = [''host'' \<mapsto> ''h'', ''database'' \<mapsto> ''d'']
     \<Longrightarrow> conn_key s None (Some ''master'') = ''None:h:None:None:master:SQL Server''"
  by (simp add: conn_key_def get_access_info_def truthy_def DEFAULT_DRIVER_def py_format_def)

lemma probing_instance_fields:
  "instance_config probing_instance = [''host'' \<mapsto> ''h'', ''database'' \<mapsto> ''d'']"
  "existing_databases probing_instance = None"
  "conns probing_instance = [''None:h:None:None:master:SQL Server'' \<mapsto> broken_query_handle]"
proof -
  have ai: "get_access_info plain_instance None (Some ''master'')
              = (None, Some ''h'', None, None, Some ''master'', Some ''SQL Server'')"
    by (simp add: get_access_info_def plain_instance_fields truthy_def DEFAULT_DRIVER_def)
  show "instance_config probing_instance = [''host'' \<mapsto> ''h'', ''database'' \<mapsto> ''d'']"
    "existing_databases probing_instance = None"
    "conns probing_instance = [''None:h:None:None:master:SQL Server'' \<mapsto> broken_query_handle]"
    by (simp_all add: probing_instance_def DEFAULT_DATABASE_def open_db_connections_def ai
          connect_plain_master[OF plain_instance_fields(1,3,4)]
          plain_instance_master_key[OF plain_instance_fields(1)]
          store_connection_def service_check_handler_def log_def plain_instance_fields)
qed

lemma probing_instance_cursor:
  "fst (get_cursor probing_instance None (Some DEFAULT_DATABASE)) = Inr broken_cursor"
  by (simp add: get_cursor_def DEFAULT_DATABASE_def
        plain_instance_master_key[OF probing_instance_fields(1)] probing_instance_fields
        broken_query_handle_def)

lemma probing_instance_access_info:
  "get_access_info probing_instance (Some DEFAULT_DB_KEY) None
     = (None, Some ''h'', None, None, Some ''d'', Some ''SQL Server'')"
  by (simp add: get_access_info_def DEFAULT_DB_KEY_def probing_instance_fields truthy_def DEFAULT_DRIVER_def)

text \<open>
  The theorem at \<open>probing_instance\<close>, whose cursor fails the catalog query.
\<close>

theorem probe_failure_is_cached_witness:
  "existing_databases probing_instance = None
   \<and> fst (get_cursor probing_instance None (Some DEFAULT_DATABASE)) = Inr broken_cursor
   \<and> execute_raises broken_cursor = Some query_failed
   \<and> fst (check_db_exists probing_instance) = Inr (False, ''h - d'')
   \<and> existing_databases (snd (check_db_exists probing_instance)) = Some Map.empty
   \<and> check_db_exists (snd (check_db_exists probing_instance))
       = (Inr (False, ''h - d''), snd (check_db_exists probing_instance))"
proof -
  have x: "execute_raises broken_cursor = Some query_failed" by (simp add: broken_cursor_def)
  then have d: "execute_raises broken_cursor \<noteq> None \<or> iter_raises broken_cursor \<noteq> None" by simp
  from probe_failure_is_cached[OF probing_instance_fields(2) probing_instance_cursor d
         probing_instance_access_info]
  obtain s' where r: "check_db_exists probing_instance = (Inr (False, ''h - d''), s')"
    and e: "existing_databases s' = Some Map.empty"
    and c: "check_db_exists s' = (Inr (False, ''h - d''), s')"
    by (auto simp: x py_format_def database_in_def)
  from r have f: "fst (check_db_exists probing_instance) = Inr (False, ''h - d'')" by simp
  from r have s: "snd (check_db_exists probing_instance) = s'" by simp
  from e have e': "existing_databases (snd (check_db_exists probing_instance)) = Some Map.empty"
    unfolding s .
  from c have c': "check_db_exists (snd (check_db_exists probing_instance))
       = (Inr (False, ''h - d''), snd (check_db_exists probing_instance))"
    unfolding s .
  from probing_instance_fields(2) probing_instance_cursor x f e' c' show ?thesis by blast
qed

lemma probing_instance_probe:
  "check_db_exists probing_instance =
     (Inr (False, ''h - d''),
      probing_instance\<lparr>existing_databases := Some Map.empty,
        events := events probing_instance @
          [Execute DATABASE_EXISTS_QUERY,
           Log ERROR ''Failed to check if database d exists: permission denied'',
           CursorClose broken_cursor]\<rparr>)"
proof -
  have g: "get_cursor probing_instance None (Some DEFAULT_DATABASE) = (Inr broken_cursor, probing_instance)"
    using probing_instance_cursor get_cursor_state[of probing_instance None "Some DEFAULT_DATABASE"]
    by (cases "get_cursor probing_instance None (Some DEFAULT_DATABASE)") simp
  show ?thesis
    by (simp add: check_db_exists_def probing_instance_access_info probing_instance_fields g Let_def
          broken_cursor_def query_failed_def close_cursor_def log_def py_format_def)
qed

text \<open>
  The claim as stated fails there: after the failed probe the cache is set, not unset, and
  the second invocation adds nothing to the trace, so the query has been executed once.
\<close>

theorem probe_failure_is_cached_counterexample:
  "fst (check_db_exists probing_instance) = Inr (False, ''h - d'')
   \<and> existing_databases (snd (check_db_exists probing_instance)) \<noteq> None
   \<and> events (snd (check_db_exists probing_instance))
       = events probing_instance @
          [Execute DATABASE_EXISTS_QUERY,
           Log ERROR ''Failed to check if database d exists: permission denied'',
           CursorClose broken_cursor]
   \<and> events (snd (check_db_exists (snd (check_db_exists probing_instance))))
       = events (snd (check_db_exists probing_instance))"
proof -
  let ?s = "snd (check_db_exists probing_instance)"
  have e: "existing_databases ?s = Some Map.empty"
    by (simp add: probing_instance_probe)
  have "instance_config ?s = instance_config probing_instance"
    by (simp add: probing_instance_probe)
  then have "get_access_info ?s (Some DEFAULT_DB_KEY) None
     = (None, Some ''h'', None, None, Some ''d'', Some ''SQL Server'')"
    using get_access_info_config_only probing_instance_access_info by metis
  from check_db_exists_cached[OF e this] have "snd (check_db_exists ?s) = ?s" by simp
  then show ?thesis by (simp add: probing_instance_probe)
qed

section \<open>The message of a failed open\<close>

lemma replace_nonempty_by_itself:
  "new = old \<Longrightarrow> old \<noteq> [] \<Longrightarrow> replace_nonempty old new s = s"
proof (induction old new s rule: replace_nonempty.induct)
  case (1 old new)
  then show ?case by simp
next
  case (2 old new c cs)
  show ?case
  proof (cases "prefix old (c # cs)")
    case True
    then obtain rest where r: "c # cs = old @ rest" by (auto simp: prefix_def)
    with "2.prems" have d: "drop (length old - 1) cs = rest"
      by (cases old) auto
    have "replace_nonempty old new (c # cs)
            = new @ replace_nonempty old new (drop (length old - 1) cs)"
      using True by simp
    also have "\<dots> = old @ rest"
      using "2.IH"(1)[OF True "2.prems"] d "2.prems"(1) by simp
    also have "\<dots> = c # cs"
      using r by simp
    finally show ?thesis .
  next
    case False
    with "2.IH"(2)[OF False "2.prems"] show ?thesis by simp
  qed
qed

lemma replace_nonempty_same: "old \<noteq> [] \<Longrightarrow> replace_nonempty old old s = s"
  by (rule replace_nonempty_by_itself) simp_all

lemma set_mask: "set password_mask = {CHR ''*''}" and password_mask_nonempty: "password_mask \<noteq> []"
  by (simp_all add: password_mask_def)

lemma py_replace_mask_removes:
  assumes "p \<noteq> []" and "CHR ''*'' \<notin> set p"
  shows "\<not> sublist p (py_replace s p password_mask)" and "py_replace (py_replace s p password_mask) p password_mask = py_replace s p password_mask"
proof -
  from assms have d: "set p \<inter> set password_mask = {}" by (simp add: set_mask)
  show n: "\<not> sublist p (py_replace s p password_mask)"
    using replace_nonempty_removes[OF assms(1) password_mask_nonempty d] assms(1) by (simp add: py_replace_def)
  from replace_nonempty_absent[OF n] assms(1)
  show "py_replace (py_replace s p password_mask) p password_mask = py_replace s p password_mask"
    by (simp add: py_replace_def)
qed

lemma py_replace_mask_by_mask: "py_replace s password_mask password_mask = s"
  using replace_nonempty_same[OF password_mask_nonempty] password_mask_nonempty by (simp add: py_replace_def)

text \<open>
  Claim C1, as amended. When \<open>open_db_connections\<close> fails and a password \<open>p\<close> is
  configured, the connect step has raised some exception \<open>e\<close>, and the message carried by
  the \<open>SQLConnectionError\<close> and the message of the CRITICAL service check, the last entry
  of the trace, are the same text: the failure message for \<open>e\<close> with
  \<open>replace(p, "******")\<close> applied. If \<open>p\<close> is not empty and has no \<open>*\<close> in it, that text
  contains no occurrence of \<open>p\<close> and scrubbing it again changes nothing; scrubbing again
  also changes nothing when \<open>p\<close> is the mask itself.
\<close>

theorem failed_open_is_scrubbed:
  assumes "fst (open_db_connections py drv self db_key db_name) = Inl err"
      and "instance_config self ''password'' = Some p"
      and "get_access_info self db_key db_name = (dsn, host, username, password, database, driver)"
  shows "\<exists>e. fst (connect_selected py drv self (connection_string_prefix self) db_key db_name) = Inl e
           \<and> err = SQLConnectionError (py_replace (failure_message host database e) p password_mask)
           \<and> last (events (snd (open_db_connections py drv self db_key db_name)))
               = ServiceCheck CRITICAL host database
                   (Some (py_replace (failure_message host database e) p password_mask))
           \<and> (p \<noteq> [] \<and> CHR ''*'' \<notin> set p \<longrightarrow>
                \<not> sublist p (py_replace (failure_message host database e) p password_mask)
                \<and> py_replace (py_replace (failure_message host database e) p password_mask) p password_mask
                    = py_replace (failure_message host database e) p password_mask)
           \<and> (p = password_mask \<longrightarrow>
                py_replace (py_replace (failure_message host database e) p password_mask) p password_mask
                    = py_replace (failure_message host database e) p password_mask)"
proof -
  obtain r s1 where c: "connect_selected py drv self (connection_string_prefix self) db_key db_name = (r, s1)"
    by (cases "connect_selected py drv self (connection_string_prefix self) db_key db_name") auto
  have "\<exists>e. r = Inl e"
  proof (cases r)
    case (Inl e)
    then show ?thesis by blast
  next
    case (Inr rawconn)
    with c open_db_connections_connected[OF _ assms(3)] assms(1) show ?thesis by simp
  qed
  then obtain e where r: "r = Inl e" by blast
  let ?m = "py_replace (failure_message host database e) p password_mask"
  have sc: "scrub self (failure_message host database e) = ?m"
    by (simp add: scrub_def assms(2))
  from c r have o: "open_db_connections py drv self db_key db_name =
           (Inl (SQLConnectionError ?m), service_check_handler CRITICAL host database (Some ?m) s1)"
    using open_db_connections_failed[OF _ assms(3)] sc by simp
  from o assms(1) have e1: "err = SQLConnectionError ?m" by simp
  from o have e2: "last (events (snd (open_db_connections py drv self db_key db_name)))
               = ServiceCheck CRITICAL host database (Some ?m)"
    by (simp add: service_check_handler_def)
  have e3: "p \<noteq> [] \<and> CHR ''*'' \<notin> set p \<longrightarrow> \<not> sublist p ?m \<and> py_replace ?m p password_mask = ?m"
    using py_replace_mask_removes by blast
  have e4: "p = password_mask \<longrightarrow> py_replace ?m p password_mask = ?m"
    by (simp add: py_replace_mask_by_mask)
  from c r have e0: "fst (connect_selected py drv self (connection_string_prefix self) db_key db_name) = Inl e"
    by simp
  show ?thesis
  proof (intro exI conjI)
    show "fst (connect_selected py drv self (connection_string_prefix self) db_key db_name) = Inl e"
      by (rule e0)
    show "err = SQLConnectionError ?m" by (rule e1)
    show "last (events (snd (open_db_connections py drv self db_key db_name)))
               = ServiceCheck CRITICAL host database (Some ?m)" by (rule e2)
    show "p \<noteq> [] \<and> CHR ''*'' \<notin> set p \<longrightarrow> \<not> sublist p ?m \<and> py_replace ?m p password_mask = ?m" by (rule e3)
    show "p = password_mask \<longrightarrow> py_replace ?m p password_mask = ?m" by (rule e4)
  qed
qed


lemma connect_echo:
  assumes "instance_config s = [''host'' \<mapsto> ''h'', ''database'' \<mapsto> ''d'', ''password'' \<mapsto> p]"
      and "p \<noteq> []" and "connector s = ''adodbapi''" and "adoprovider s = ''SQLOLEDB''"
  shows "get_access_info s (Some ''database'') None
           = (None, Some ''h'', None, Some p, Some ''d'', Some ''SQL Server'')"
    and "fst (connect_selected ascii_str echoing_drivers s (connection_string_prefix s) (Some ''database'') None)
           = Inl (PyException
                    (''Error('cannot connect with Provider=SQLOLEDB;Data Source=h;Initial Catalog=d;Password=''
                     @ p @ '';')'')
                    (''cannot connect with Provider=SQLOLEDB;Data Source=h;Initial Catalog=d;Password=''
                     @ p @ '';''))"
proof -
  show ai: "get_access_info s (Some ''database'') None
              = (None, Some ''h'', None, Some p, Some ''d'', Some ''SQL Server'')"
    by (simp add: get_access_info_def assms truthy_def DEFAULT_DRIVER_def)
  have g: "get_connector ascii_str s = (Inr ''adodbapi'', s)"
    by (simp add: get_connector_def get_default_def assms)
  have a: "get_adoprovider ascii_str s = (Inr ''SQLOLEDB'', s)"
    by (simp add: get_adoprovider_def get_default_def assms default_adoprovider_def)
  have b: "conn_string_adodbapi ascii_str s (Some ''database'') None None =
             (Inr (''Provider=SQLOLEDB;Data Source=h;Initial Catalog=d;Password='' @ p @ '';''),
              log DEBUG ''Connection string (before password) Provider=SQLOLEDB;Data Source=h;Initial Catalog=d;'' s)"
    using assms(2)
    by (simp add: conn_string_adodbapi_def fields_of_def truthy_def ai a Let_def py_format_def segment_def)
  have c: "connection_string_prefix s = []"
    by (simp add: connection_string_prefix_def get_default_def assms)
  show "fst (connect_selected ascii_str echoing_drivers s (connection_string_prefix s) (Some ''database'') None)
           = Inl (PyException
                    (''Error('cannot connect with Provider=SQLOLEDB;Data Source=h;Initial Catalog=d;Password=''
                     @ p @ '';')'')
                    (''cannot connect with Provider=SQLOLEDB;Data Source=h;Initial Catalog=d;Password=''
                     @ p @ '';''))"
    by (simp add: connect_selected_def g b c module_connect_def echoing_drivers_def)
qed

lemma secret_instance_fields:
  "instance_config secret_instance = [''host'' \<mapsto> ''h'', ''database'' \<mapsto> ''d'', ''password'' \<mapsto> ''s3cret'']"
  "connector secret_instance = ''adodbapi''"
  "adoprovider secret_instance = ''SQLOLEDB''"
  by (simp_all add: secret_instance_def init_connector init_adoprovider)
     (simp_all add: Connection_init_def Let_def log_def)

lemma starred_instance_fields:
  "instance_config starred_instance = [''host'' \<mapsto> ''h'', ''database'' \<mapsto> ''d'', ''password'' \<mapsto> ''*'']"
  "connector starred_instance = ''adodbapi''"
  "adoprovider starred_instance = ''SQLOLEDB''"
  by (simp_all add: starred_instance_def init_connector init_adoprovider)
     (simp_all add: Connection_init_def Let_def log_def)

lemma echo_open:
  assumes "instance_config s = [''host'' \<mapsto> ''h'', ''database'' \<mapsto> ''d'', ''password'' \<mapsto> p]"
      and "p \<noteq> []" and "connector s = ''adodbapi''" and "adoprovider s = ''SQLOLEDB''"
  shows "fst (open_db_connections ascii_str echoing_drivers s (Some ''database'') None)
           = Inl (SQLConnectionError
                    (py_replace
                       (''Unable to connect to SQL Server for instance h - d: Error('cannot connect with Provider=SQLOLEDB;Data Source=h;Initial Catalog=d;Password=''
                        @ p @ '';')'')
                       p password_mask))"
proof -
  obtain e s1 where c: "connect_selected ascii_str echoing_drivers s (connection_string_prefix s) (Some ''database'') None
                          = (Inl e, s1)"
    and e: "e = PyException
                    (''Error('cannot connect with Provider=SQLOLEDB;Data Source=h;Initial Catalog=d;Password=''
                     @ p @ '';')'')
                    (''cannot connect with Provider=SQLOLEDB;Data Source=h;Initial Catalog=d;Password=''
                     @ p @ '';'')"
    using connect_echo(2)[OF assms]
    by (cases "connect_selected ascii_str echoing_drivers s (connection_string_prefix s) (Some ''database'') None") auto
  from open_db_connections_failed[OF c connect_echo(1)[OF assms]]
  show ?thesis
    by (simp add: scrub_def assms(1) failure_message_def py_format_def e)
qed


lemma password_mask_value: "password_mask = ''******''"
  by (simp add: password_mask_def numeral_eq_Suc)

lemma secret_instance_open:
  "fst (open_db_connections ascii_str echoing_drivers secret_instance (Some ''database'') None)
     = Inl (SQLConnectionError ''Unable to connect to SQL Server for instance h - d: Error('cannot connect with Provider=SQLOLEDB;Data Source=h;Initial Catalog=d;Password=******;')'')"
  using echo_open[OF secret_instance_fields(1) _ secret_instance_fields(2,3)]
  by (simp add: py_replace_def password_mask_value)

text \<open>
  The theorem at an instance with the password \<open>s3cret\<close> and a driver that quotes the
  connection string in its exception.
\<close>

theorem failed_open_is_scrubbed_witness:
  "instance_config secret_instance ''password'' = Some ''s3cret''
   \<and> fst (open_db_connections ascii_str echoing_drivers secret_instance (Some ''database'') None)
       = Inl (SQLConnectionError ''Unable to connect to SQL Server for instance h - d: Error('cannot connect with Provider=SQLOLEDB;Data Source=h;Initial Catalog=d;Password=******;')'')
   \<and> \<not> sublist ''s3cret'' ''Unable to connect to SQL Server for instance h - d: Error('cannot connect with Provider=SQLOLEDB;Data Source=h;Initial Catalog=d;Password=******;')''
   \<and> py_replace ''Unable to connect to SQL Server for instance h - d: Error('cannot connect with Provider=SQLOLEDB;Data Source=h;Initial Catalog=d;Password=******;')''
         ''s3cret'' password_mask
       = ''Unable to connect to SQL Server for instance h - d: Error('cannot connect with Provider=SQLOLEDB;Data Source=h;Initial Catalog=d;Password=******;')''"
proof -
  let ?m = "''Unable to connect to SQL Server for instance h - d: Error('cannot connect with Provider=SQLOLEDB;Data Source=h;Initial Catalog=d;Password=******;')''"
  have pw: "instance_config secret_instance ''password'' = Some ''s3cret''"
    by (simp add: secret_instance_fields)
  have ai: "get_access_info secret_instance (Some ''database'') None
           = (None, Some ''h'', None, Some ''s3cret'', Some ''d'', Some ''SQL Server'')"
    by (rule connect_echo(1)[OF secret_instance_fields(1) _ secret_instance_fields(2,3)]) simp
  have ok: "''s3cret'' \<noteq> [] \<and> CHR ''*'' \<notin> set ''s3cret''" by simp
  from failed_open_is_scrubbed[OF secret_instance_open pw ai]
  obtain e where m: "SQLConnectionError ?m
                       = SQLConnectionError (py_replace (failure_message (Some ''h'') (Some ''d'') e)
                                               ''s3cret'' password_mask)"
    and c: "''s3cret'' \<noteq> [] \<and> CHR ''*'' \<notin> set ''s3cret'' \<longrightarrow>
              \<not> sublist ''s3cret'' (py_replace (failure_message (Some ''h'') (Some ''d'') e)
                                       ''s3cret'' password_mask)
              \<and> py_replace (py_replace (failure_message (Some ''h'') (Some ''d'') e) ''s3cret'' password_mask)
                    ''s3cret'' password_mask
                  = py_replace (failure_message (Some ''h'') (Some ''d'') e) ''s3cret'' password_mask"
    by (elim exE conjE)
  from m have eq: "py_replace (failure_message (Some ''h'') (Some ''d'') e) ''s3cret'' password_mask = ?m"
    by (simp only: error.inject)
  from c ok have "\<not> sublist ''s3cret'' ?m" and "py_replace ?m ''s3cret'' password_mask = ?m"
    unfolding eq by blast+
  with pw secret_instance_open show ?thesis by blast
qed

lemma starred_instance_open:
  "fst (open_db_connections ascii_str echoing_drivers starred_instance (Some ''database'') None)
     = Inl (SQLConnectionError ''Unable to connect to SQL Server for instance h - d: Error('cannot connect with Provider=SQLOLEDB;Data Source=h;Initial Catalog=d;Password=******;')'')"
  using echo_open[OF starred_instance_fields(1) _ starred_instance_fields(2,3)]
  by (simp add: py_replace_def password_mask_value)

lemma scrub_again:
  "py_replace ''Unable to connect to SQL Server for instance h - d: Error('cannot connect with Provider=SQLOLEDB;Data Source=h;Initial Catalog=d;Password=******;')''
     ''*'' password_mask
   = ''Unable to connect to SQL Server for instance h - d: Error('cannot connect with Provider=SQLOLEDB;Data Source=h;Initial Catalog=d;Password=************************************;')''"
  by (simp add: py_replace_def password_mask_value)

text \<open>
  The claim as stated fails for the password \<open>*\<close>, a substring of the mask: the scrubbed
  message contains the six stars of the mask, and scrubbing it again turns each of them
  into six more.
\<close>

theorem failed_open_is_scrubbed_counterexample:
  "instance_config starred_instance ''password'' = Some ''*''
   \<and> fst (open_db_connections ascii_str echoing_drivers starred_instance (Some ''database'') None)
       = Inl (SQLConnectionError ''Unable to connect to SQL Server for instance h - d: Error('cannot connect with Provider=SQLOLEDB;Data Source=h;Initial Catalog=d;Password=******;')'')
   \<and> py_replace ''Unable to connect to SQL Server for instance h - d: Error('cannot connect with Provider=SQLOLEDB;Data Source=h;Initial Catalog=d;Password=******;')''
         ''*'' password_mask
       \<noteq> ''Unable to connect to SQL Server for instance h - d: Error('cannot connect with Provider=SQLOLEDB;Data Source=h;Initial Catalog=d;Password=******;')''"
proof -
  have "instance_config starred_instance ''password'' = Some ''*''"
    by (simp add: starred_instance_fields)
  moreover have "py_replace ''Unable to connect to SQL Server for instance h - d: Error('cannot connect with Provider=SQLOLEDB;Data Source=h;Initial Catalog=d;Password=******;')''
         ''*'' password_mask
       \<noteq> ''Unable to connect to SQL Server for instance h - d: Error('cannot connect with Provider=SQLOLEDB;Data Source=h;Initial Catalog=d;Password=******;')''"
    unfolding scrub_again by simp
  ultimately show ?thesis using starred_instance_open by blast
qed

end
